theory Spec2Isabelle
  imports Main
begin

section \<open>The ledger: tables of the initial schema\<close>

text \<open>
  The tables of \<^verbatim>\<open>supabase/migrations/20240000000001_initial_schema.sql\<close>, each as a list
  of rows in table order. A \<^verbatim>\<open>uuid\<close> is an opaque string. Values generated by the
  database (\<^verbatim>\<open>uuid_generate_v4()\<close>, \<^verbatim>\<open>now()\<close>) are arguments of the operations.

  Columns of SQL type \<^verbatim>\<open>integer\<close> are unbounded integers here: PostgreSQL raises
  ``integer out of range'' and aborts the statement rather than wrapping, so an overflowing
  statement commits nothing and every statement that commits computes exactly these values.
  Declarative constraints (foreign keys, NOT NULL) are not checked by the model; the states
  used in examples satisfy them.
\<close>

type_synonym uuid = string
type_synonym timestamp = nat

record profile =
  p_id :: uuid
  p_name :: string
  p_designation :: string
  p_is_admin :: bool
  p_is_approved :: bool

record category_row =
  cr_id :: uuid
  cr_price :: int
  cr_stock :: int

text \<open>One element of the \<^verbatim>\<open>items\<close> array of a sale:
  \<^verbatim>\<open>{category: {id, price, stock}, quantity}\<close>.\<close>

record sale_item =
  si_category :: uuid
  si_price :: int
  si_stock :: int
  si_quantity :: int

record payment =
  pay_cash :: int
  pay_online :: int
  pay_slip :: "string option"

record sale_row =
  s_id :: uuid
  s_user_id :: uuid
  s_created_by :: uuid
  s_timestamp :: timestamp
  s_items :: "sale_item list"
  s_total :: int
  s_payment :: payment

record expense_row =
  e_id :: uuid
  e_created_by :: uuid
  e_purpose :: string
  e_amount :: int
  e_cash_amount :: int
  e_online_amount :: int
  e_receipt_image :: "string option"
  e_timestamp :: timestamp

record deposit_row =
  d_id :: uuid
  d_deposited_by :: uuid
  d_received_by :: uuid
  d_amount :: int
  d_description :: "string option"
  d_slip_image :: "string option"
  d_timestamp :: timestamp

record balances_row =
  b_id :: uuid
  shop_balance :: int
  bank_balance :: int
  last_updated :: timestamp

datatype ntype = Sale | Expense | Deposit | Approval

text \<open>A notification row. The \<^verbatim>\<open>description\<close> text is \<^verbatim>\<open>format\<close> applied to the
  amount, the purpose and the creator's name, all of which the metadata fields below hold;
  the rendered text itself is left out.\<close>

record notification =
  n_user_id :: uuid
  n_title :: string
  n_type :: ntype
  n_ref :: uuid
  n_amount :: int
  n_purpose :: "string option"
  n_creator_id :: uuid
  n_creator_name :: "string option"

record db =
  db_auth_users :: "uuid list"
  db_profiles :: "profile list"
  db_categories :: "category_row list"
  db_sales :: "sale_row list"
  db_expenses :: "expense_row list"
  db_deposits :: "deposit_row list"
  db_balances :: "balances_row list"
  db_notifications :: "notification list"

text \<open>\<^verbatim>\<open>select ... from balances limit 1\<close>: the first row of the table, if any.\<close>

definition current_balances :: "db \<Rightarrow> balances_row option" where
  "current_balances d = (case db_balances d of [] \<Rightarrow> None | b # _ \<Rightarrow> Some b)"

text \<open>\<^verbatim>\<open>update balances set ... where id = i\<close>; a NULL \<^verbatim>\<open>i\<close> matches no row.\<close>

definition update_balances_where :: "uuid option \<Rightarrow> (balances_row \<Rightarrow> balances_row) \<Rightarrow> db \<Rightarrow> db" where
  "update_balances_where i f d =
     d\<lparr>db_balances := map (\<lambda>r. if Some (b_id r) = i then f r else r) (db_balances d)\<rparr>"

text \<open>\<^verbatim>\<open>select ... from profiles where id = i\<close>.\<close>

definition profile_of :: "db \<Rightarrow> uuid \<Rightarrow> profile option" where
  "profile_of d i = find (\<lambda>p. p_id p = i) (db_profiles d)"

text \<open>The recipients of the notification triggers:
  \<^verbatim>\<open>select id from auth.users where id != creator and id in (select id from profiles where sel)\<close>.\<close>

definition notify_recipients :: "db \<Rightarrow> uuid \<Rightarrow> (profile \<Rightarrow> bool) \<Rightarrow> uuid list" where
  "notify_recipients d creator sel =
     filter (\<lambda>u. u \<noteq> creator \<and> u \<in> set (map p_id (filter sel (db_profiles d)))) (db_auth_users d)"

section \<open>Triggers and the stored procedure\<close>

definition notify_sale :: "sale_row \<Rightarrow> db \<Rightarrow> db" where
  "notify_sale new d =
     (let creator_name = map_option p_name (profile_of d (s_created_by new));
          row = (\<lambda>u. \<lparr>n_user_id = u, n_title = ''New Sale'', n_type = Sale, n_ref = s_id new,
                       n_amount = s_total new, n_purpose = None,
                       n_creator_id = s_created_by new, n_creator_name = creator_name\<rparr>)
      in d\<lparr>db_notifications := db_notifications d @
             map row (notify_recipients d (s_created_by new) p_is_approved)\<rparr>)"

definition notify_expense :: "expense_row \<Rightarrow> db \<Rightarrow> db" where
  "notify_expense new d =
     (let creator = profile_of d (e_created_by new);
          creator_name = map_option p_name creator;
          creator_designation = map_option p_designation creator;
          row = (\<lambda>u. \<lparr>n_user_id = u, n_title = ''New Expense'', n_type = Expense, n_ref = e_id new,
                       n_amount = e_amount new, n_purpose = Some (e_purpose new),
                       n_creator_id = e_created_by new, n_creator_name = creator_name\<rparr>)
      in if creator_designation = Some ''Store Manager''
         then d\<lparr>db_notifications := db_notifications d @
                  map row (notify_recipients d (e_created_by new) p_is_approved)\<rparr>
         else d\<lparr>db_notifications := db_notifications d @
                  map row (notify_recipients d (e_created_by new)
                             (\<lambda>p. p_designation p = ''Owner''))\<rparr>)"

definition notify_deposit :: "deposit_row \<Rightarrow> db \<Rightarrow> db" where
  "notify_deposit new d =
     (let creator_name = map_option p_name (profile_of d (d_deposited_by new));
          row = (\<lambda>u. \<lparr>n_user_id = u, n_title = ''New Deposit'', n_type = Deposit, n_ref = d_id new,
                       n_amount = d_amount new, n_purpose = None,
                       n_creator_id = d_deposited_by new, n_creator_name = creator_name\<rparr>)
      in d\<lparr>db_notifications := db_notifications d @
             map row (notify_recipients d (d_deposited_by new)
                        (\<lambda>p. p_designation p = ''Owner''))\<rparr>)"

definition update_balances_for_sale :: "timestamp \<Rightarrow> sale_row \<Rightarrow> db \<Rightarrow> db" where
  "update_balances_for_sale now new d =
     (let cash_amount = pay_cash (s_payment new);
          online_amount = pay_online (s_payment new)
      in update_balances_where (map_option b_id (current_balances d))
           (\<lambda>r. r\<lparr>shop_balance := shop_balance r + cash_amount,
                   bank_balance := bank_balance r + online_amount,
                   last_updated := now\<rparr>) d)"

definition update_balances_for_deposit :: "timestamp \<Rightarrow> deposit_row \<Rightarrow> db \<Rightarrow> db" where
  "update_balances_for_deposit now new d =
     update_balances_where (map_option b_id (current_balances d))
       (\<lambda>r. r\<lparr>shop_balance := shop_balance r - d_amount new,
               bank_balance := bank_balance r + d_amount new,
               last_updated := now\<rparr>) d"

text \<open>
  An \<^verbatim>\<open>insert\<close> runs the table's \<^verbatim>\<open>after insert\<close> triggers in the same statement, in
  the order of their names: \<^verbatim>\<open>on_sale_notify\<close> before \<^verbatim>\<open>update_balances_after_sale\<close>,
  \<^verbatim>\<open>on_deposit_notify\<close> before \<^verbatim>\<open>update_balances_after_deposit\<close>. The table
  \<^verbatim>\<open>expenses\<close> has the trigger \<^verbatim>\<open>on_expense_notify\<close> only.
\<close>

definition insert_sale :: "timestamp \<Rightarrow> sale_row \<Rightarrow> db \<Rightarrow> db" where
  "insert_sale now new d =
     update_balances_for_sale now new (notify_sale new (d\<lparr>db_sales := db_sales d @ [new]\<rparr>))"

definition insert_expense :: "expense_row \<Rightarrow> db \<Rightarrow> db" where
  "insert_expense new d = notify_expense new (d\<lparr>db_expenses := db_expenses d @ [new]\<rparr>)"

definition insert_deposit :: "timestamp \<Rightarrow> deposit_row \<Rightarrow> db \<Rightarrow> db" where
  "insert_deposit now new d =
     update_balances_for_deposit now new (notify_deposit new (d\<lparr>db_deposits := db_deposits d @ [new]\<rparr>))"

datatype sql_error =
    No_balance_record
  | Cash_exceeds_shop_balance
  | Online_exceeds_bank_balance
  | Error_handling_expense sql_error

text \<open>
  The inner block of \<^verbatim>\<open>handle_expense\<close>: the balances row is read \<^verbatim>\<open>for update\<close>
  into \<^verbatim>\<open>v_balance_id, v_shop_balance, v_bank_balance\<close>, the amounts are validated against
  these variables, the expense row is inserted and the balances row is overwritten from the
  same variables.
\<close>

definition handle_expense_block ::
  "timestamp \<Rightarrow> uuid \<Rightarrow> uuid \<Rightarrow> string \<Rightarrow> int \<Rightarrow> int \<Rightarrow> db \<Rightarrow> sql_error + (uuid \<times> db)" where
  "handle_expense_block now fresh user_id expense_purpose cash_amt online_amt d =
     (case current_balances d of
        None \<Rightarrow> Inl No_balance_record
      | Some locked \<Rightarrow>
          (let v_balance_id = b_id locked;
               v_shop_balance = shop_balance locked;
               v_bank_balance = bank_balance locked
           in if cash_amt > v_shop_balance then Inl Cash_exceeds_shop_balance
              else if online_amt > v_bank_balance then Inl Online_exceeds_bank_balance
              else
                (let d1 = insert_expense
                            \<lparr>e_id = fresh, e_created_by = user_id, e_purpose = expense_purpose,
                             e_amount = cash_amt + online_amt, e_cash_amount = cash_amt,
                             e_online_amount = online_amt, e_receipt_image = None,
                             e_timestamp = now\<rparr> d;
                     d2 = update_balances_where (Some v_balance_id)
                            (\<lambda>r. r\<lparr>shop_balance := v_shop_balance - cash_amt,
                                    bank_balance := v_bank_balance - online_amt,
                                    last_updated := now\<rparr>) d1
                 in Inr (fresh, d2))))"

text \<open>
  \<^verbatim>\<open>exception when others then raise exception 'Error handling expense: %', SQLERRM\<close>:
  an exception leaves the block's writes undone and is raised again, wrapped; the failed
  call leaves the database as it was.
\<close>

definition handle_expense ::
  "timestamp \<Rightarrow> uuid \<Rightarrow> uuid \<Rightarrow> string \<Rightarrow> int \<Rightarrow> int \<Rightarrow> db \<Rightarrow> (sql_error + uuid) \<times> db" where
  "handle_expense now fresh user_id expense_purpose cash_amt online_amt d =
     (case handle_expense_block now fresh user_id expense_purpose cash_amt online_amt d of
        Inl e \<Rightarrow> (Inl (Error_handling_expense e), d)
      | Inr (v_expense_id, d') \<Rightarrow> (Inr v_expense_id, d'))"

section \<open>The client store (\<^verbatim>\<open>src/lib/store.ts\<close>)\<close>

text \<open>
  JavaScript numbers are modelled as integers (prices, stocks and amounts are whole numbers
  of rupees); \<^verbatim>\<open>NaN\<close> is \<open>None\<close> where a parse can produce it. An error object is its
  message. An array index is an integer; an index outside the array reads \<^verbatim>\<open>undefined\<close>.
\<close>

type_synonym js_error = string

record category =
  cat_id :: "string option"
  cat_price :: int
  cat_stock :: int
  cat_user_id :: "string option"

record creator_data =
  cd_name :: string
  cd_designation :: string

record sale =
  sale_id :: string
  sale_user_id :: string
  sale_created_by :: string
  sale_timestamp :: timestamp
  sale_items :: "sale_item list"
  sale_total :: int
  sale_payment :: payment
  sale_creator :: creator_data

record client_balances =
  shopBalance :: int
  bankBalance :: int

record store =
  st_categories :: "category list"
  st_sales :: "sale list"
  st_initialized :: bool
  st_userProfile :: "profile option"
  st_balances :: client_balances

text \<open>The two keys of \<^verbatim>\<open>localStorage\<close>, each holding the value whose JSON text is stored.\<close>

record local_storage =
  cached_categories :: "category list option"
  cached_balances :: "client_balances option"

text \<open>What an awaited remote call gives: the promise rejects with an error, or it resolves
  to the pair \<^verbatim>\<open>{error, data}\<close>, either of which may be \<^verbatim>\<open>null\<close>.\<close>

datatype 'a response = Rejected js_error | Response "js_error option" "'a option"

record fetch_responses =
  categoriesResponse :: "category_row list response"
  salesResponse :: "(sale_row \<times> creator_data option) list response"
  balancesResponse :: "(int \<times> int) response"

text \<open>The remote write a store action sends.\<close>

datatype request =
    Insert_category int uuid
  | Update_stock string int
  | Update_price string int
  | Delete_category string

definition processCreator :: "creator_data option \<Rightarrow> creator_data" where
  "processCreator creator =
     \<lparr>cd_name = (case creator of None \<Rightarrow> ''Unknown''
                  | Some c \<Rightarrow> if cd_name c = [] then ''Unknown'' else cd_name c),
      cd_designation = (case creator of None \<Rightarrow> ''Unknown''
                  | Some c \<Rightarrow> if cd_designation c = [] then ''Unknown'' else cd_designation c)\<rparr>"

definition category_of_row :: "category_row \<Rightarrow> category" where
  "category_of_row cat =
     \<lparr>cat_id = Some (cr_id cat), cat_price = cr_price cat, cat_stock = cr_stock cat,
      cat_user_id = None\<rparr>"

definition sale_of_row :: "sale_row \<times> creator_data option \<Rightarrow> sale" where
  "sale_of_row r =
     (case r of (row, creator) \<Rightarrow>
        \<lparr>sale_id = s_id row, sale_user_id = s_user_id row, sale_created_by = s_created_by row,
         sale_timestamp = s_timestamp row, sale_items = s_items row, sale_total = s_total row,
         sale_payment = (s_payment row)
           \<lparr>pay_slip := Some (case pay_slip (s_payment row) of None \<Rightarrow> [] | Some u \<Rightarrow> u)\<rparr>,
         sale_creator = processCreator creator\<rparr>)"

text \<open>\<^verbatim>\<open>await Promise.all([...])\<close> of the three queries: it rejects when one of them
  rejects, taken in the order of the array.\<close>

definition promise_all3 ::
  "'a response \<Rightarrow> 'b response \<Rightarrow> 'c response \<Rightarrow>
   js_error + ((js_error option \<times> 'a option) \<times> (js_error option \<times> 'b option) \<times> (js_error option \<times> 'c option))" where
  "promise_all3 a b c =
     (case a of Rejected e \<Rightarrow> Inl e
      | Response ae ad \<Rightarrow>
          (case b of Rejected e \<Rightarrow> Inl e
           | Response be bd \<Rightarrow>
               (case c of Rejected e \<Rightarrow> Inl e
                | Response ce cdat \<Rightarrow> Inr ((ae, ad), (be, bd), (ce, cdat)))))"

text \<open>
  \<^verbatim>\<open>fetchAllData\<close>. The first argument is the user of \<^verbatim>\<open>supabase.auth.getUser()\<close>.
  A left result is the error the function throws to its caller.
\<close>

definition fetchAllData ::
  "uuid option \<Rightarrow> fetch_responses \<Rightarrow> store \<times> local_storage \<Rightarrow>
   (js_error + unit) \<times> (store \<times> local_storage)" where
  "fetchAllData user rs cl =
     (case user of
        None \<Rightarrow> (Inr (), cl)
      | Some u \<Rightarrow>
          (case promise_all3 (categoriesResponse rs) (salesResponse rs) (balancesResponse rs) of
             Inl error \<Rightarrow> (Inl error, cl)
           | Inr ((cat_error, cat_data), (sales_error, sales_data), (bal_error, bal_data)) \<Rightarrow>
               (case cat_error of Some error \<Rightarrow> (Inl error, cl)
                | None \<Rightarrow>
               (case sales_error of Some error \<Rightarrow> (Inl error, cl)
                | None \<Rightarrow>
               (case bal_error of Some error \<Rightarrow> (Inl error, cl)
                | None \<Rightarrow>
                   (let categories = (case cat_data of None \<Rightarrow> []
                                      | Some rows \<Rightarrow> map category_of_row rows);
                        sales = (case sales_data of None \<Rightarrow> []
                                 | Some rows \<Rightarrow> map sale_of_row rows);
                        balances = (case bal_data of None \<Rightarrow> \<lparr>shopBalance = 0, bankBalance = 0\<rparr>
                                    | Some (shop, bank) \<Rightarrow> \<lparr>shopBalance = shop, bankBalance = bank\<rparr>)
                    in (Inr (),
                        ((fst cl)\<lparr>st_categories := categories, st_sales := sales,
                                 st_balances := balances, st_initialized := True\<rparr>,
                         \<lparr>cached_categories = Some categories,
                          cached_balances = Some balances\<rparr>))))))))"

definition optimisticUpdateCategories :: "category list \<Rightarrow> store \<Rightarrow> store" where
  "optimisticUpdateCategories categories st = st\<lparr>st_categories := categories\<rparr>"

definition nth_opt :: "'a list \<Rightarrow> int \<Rightarrow> 'a option" where
  "nth_opt xs i = (if 0 \<le> i \<and> nat i < length xs then Some (xs ! nat i) else None)"

text \<open>\<^verbatim>\<open>category?.id\<close> when it is truthy: present and not the empty string.\<close>

definition truthy_id :: "category option \<Rightarrow> string option" where
  "truthy_id category =
     (case category of None \<Rightarrow> None
      | Some c \<Rightarrow> (case cat_id c of None \<Rightarrow> None
                   | Some i \<Rightarrow> if i = [] then None else Some i))"

text \<open>
  The store actions return what they throw or \<open>Inr ()\<close>, the remote write they sent (if
  any) and the store afterwards. The \<open>reply\<close> argument is what the remote write answers.
  In \<^verbatim>\<open>updateStock\<close>, \<^verbatim>\<open>updatePrice\<close> and \<^verbatim>\<open>deleteCategory\<close> an \<^verbatim>\<open>error\<close> in the
  reply reverts, throws inside the \<^verbatim>\<open>try\<close>, and the \<^verbatim>\<open>catch\<close> reverts once more.
\<close>

definition updateStock ::
  "int \<Rightarrow> int \<Rightarrow> unit response \<Rightarrow> store \<Rightarrow> (js_error + unit) \<times> request option \<times> store" where
  "updateStock index stock reply st =
     (let categories = st_categories st;
          category = nth_opt categories index
      in case (category, truthy_id category) of
           (Some c, Some cid) \<Rightarrow>
             (let updatedCategories = categories[nat index := c\<lparr>cat_stock := max 0 stock\<rparr>];
                  st1 = optimisticUpdateCategories updatedCategories st;
                  sent = Update_stock cid (max 0 stock)
              in case reply of
                   Response None _ \<Rightarrow> (Inr (), Some sent, st1)
                 | Response (Some error) _ \<Rightarrow>
                     (Inl error, Some sent,
                      optimisticUpdateCategories categories
                        (optimisticUpdateCategories categories st1))
                 | Rejected error \<Rightarrow>
                     (Inl error, Some sent, optimisticUpdateCategories categories st1))
         | _ \<Rightarrow> (Inr (), None, st))"

definition updatePrice ::
  "int \<Rightarrow> int \<Rightarrow> unit response \<Rightarrow> store \<Rightarrow> (js_error + unit) \<times> request option \<times> store" where
  "updatePrice index newPrice reply st =
     (let categories = st_categories st;
          category = nth_opt categories index
      in case (category, truthy_id category) of
           (Some c, Some cid) \<Rightarrow>
             (let updatedCategories = categories[nat index := c\<lparr>cat_price := newPrice\<rparr>];
                  st1 = optimisticUpdateCategories updatedCategories st;
                  sent = Update_price cid newPrice
              in case reply of
                   Response None _ \<Rightarrow> (Inr (), Some sent, st1)
                 | Response (Some error) _ \<Rightarrow>
                     (Inl error, Some sent,
                      optimisticUpdateCategories categories
                        (optimisticUpdateCategories categories st1))
                 | Rejected error \<Rightarrow>
                     (Inl error, Some sent, optimisticUpdateCategories categories st1))
         | _ \<Rightarrow> (Inr (), None, st))"

definition deleteCategory ::
  "int \<Rightarrow> unit response \<Rightarrow> store \<Rightarrow> (js_error + unit) \<times> request option \<times> store" where
  "deleteCategory index reply st =
     (let categories = st_categories st;
          category = nth_opt categories index
      in case (category, truthy_id category) of
           (Some c, Some cid) \<Rightarrow>
             (let updatedCategories = take (nat index) categories @ drop (Suc (nat index)) categories;
                  st1 = optimisticUpdateCategories updatedCategories st;
                  sent = Delete_category cid
              in case reply of
                   Response None _ \<Rightarrow> (Inr (), Some sent, st1)
                 | Response (Some error) _ \<Rightarrow>
                     (Inl error, Some sent,
                      optimisticUpdateCategories categories
                        (optimisticUpdateCategories categories st1))
                 | Rejected error \<Rightarrow>
                     (Inl error, Some sent, optimisticUpdateCategories categories st1))
         | _ \<Rightarrow> (Inr (), None, st))"

text \<open>
  \<^verbatim>\<open>addCategory\<close>. \<open>fresh\<close> is \<^verbatim>\<open>crypto.randomUUID()\<close>. The array is sorted with the
  comparator \<^verbatim>\<open>a.price - b.price\<close>; \<^verbatim>\<open>Array.prototype.sort\<close> is stable, as is
  \<^const>\<open>sort_key\<close>. On an \<^verbatim>\<open>error\<close> in the reply the new category is filtered out of the
  store's current list by its id. A rejected insert reaches the outer \<^verbatim>\<open>catch\<close> only,
  which logs and throws again. After a successful insert the store is refetched.
\<close>

definition addCategory ::
  "int \<Rightarrow> uuid option \<Rightarrow> string \<Rightarrow> unit response \<Rightarrow> fetch_responses \<Rightarrow> store \<times> local_storage \<Rightarrow>
   ((js_error + unit) \<times> request option) \<times> (store \<times> local_storage)" where
  "addCategory price user fresh reply rs cl =
     (case user of
        None \<Rightarrow> ((Inr (), None), cl)
      | Some u \<Rightarrow>
          (let newCategory = \<lparr>cat_id = Some fresh, cat_price = price, cat_stock = 0,
                              cat_user_id = Some u\<rparr>;
               updatedCategories = sort_key cat_price (st_categories (fst cl) @ [newCategory]);
               st1 = optimisticUpdateCategories updatedCategories (fst cl);
               sent = Insert_category price u
           in case reply of
                Rejected error \<Rightarrow> ((Inl error, Some sent), (st1, snd cl))
              | Response (Some error) _ \<Rightarrow>
                  ((Inl error, Some sent),
                   (optimisticUpdateCategories
                      (filter (\<lambda>c. cat_id c \<noteq> cat_id newCategory) (st_categories st1)) st1,
                    snd cl))
              | Response None _ \<Rightarrow>
                  (case fetchAllData (Some u) rs (st1, snd cl) of
                     (r, cl') \<Rightarrow> ((r, Some sent), cl'))))"

section \<open>The forms that commit deposits, expenses and sales\<close>

text \<open>
  A numeric text field of a form: empty, text that parses to \<^verbatim>\<open>NaN\<close>, or a whole number.
  \<^verbatim>\<open>parseInt(x)\<close> and \<^verbatim>\<open>Number(x || 0)\<close> differ on the empty field.
\<close>

datatype field = Blank | Unparsable | Num int

definition parseInt :: "field \<Rightarrow> int option" where
  "parseInt x = (case x of Num n \<Rightarrow> Some n | _ \<Rightarrow> None)"

definition number_or_0 :: "field \<Rightarrow> int option" where
  "number_or_0 x = (case x of Blank \<Rightarrow> Some 0 | Unparsable \<Rightarrow> None | Num n \<Rightarrow> Some n)"

text \<open>\<^verbatim>\<open>x || "0"\<close> on a text field.\<close>

definition or_zero :: "field \<Rightarrow> field" where
  "or_zero x = (case x of Blank \<Rightarrow> Num 0 | _ \<Rightarrow> x)"

text \<open>Addition with \<^verbatim>\<open>NaN\<close>, and \<^verbatim>\<open>!==\<close>, which is true whenever a side is \<^verbatim>\<open>NaN\<close>.\<close>

definition js_add :: "int option \<Rightarrow> int option \<Rightarrow> int option" where
  "js_add a b = (case (a, b) of (Some x, Some y) \<Rightarrow> Some (x + y) | _ \<Rightarrow> None)"

definition js_neq :: "int option \<Rightarrow> int option \<Rightarrow> bool" where
  "js_neq a b = (case (a, b) of (Some x, Some y) \<Rightarrow> x \<noteq> y | _ \<Rightarrow> True)"

text \<open>The optional image of a form: none chosen, uploaded (its public URL), or the upload
  threw.\<close>

datatype upload = No_image | Uploaded string | Upload_failed

definition image_url :: "upload \<Rightarrow> string option" where
  "image_url x = (case x of Uploaded url \<Rightarrow> Some url | _ \<Rightarrow> None)"

subsection \<open>Deposits: \<^verbatim>\<open>handleSubmit\<close> of the deposits page\<close>

datatype deposit_error =
    Enter_a_valid_amount
  | Amount_exceeds_available_balance int
  | Select_a_user
  | Must_be_logged_in
  | Deposit_upload_failed
  | Failed_to_create_deposit

text \<open>
  \<open>balances\<close> is the store's mirror as the page holds it. \<open>accepted\<close> tells whether the
  insert request came back without an error. A result \<open>None\<close> is the success path. The
  refresh that follows the insert (\<^verbatim>\<open>fetchDeposits\<close>, \<^verbatim>\<open>fetchBalances\<close>) only reads the
  ledger; \<^verbatim>\<open>fetchBalances\<close> is \<^const>\<open>fetchAllData\<close>.
\<close>

definition deposit_handleSubmit ::
  "client_balances \<Rightarrow> field \<Rightarrow> string \<Rightarrow> uuid option \<Rightarrow> upload \<Rightarrow> bool \<Rightarrow> timestamp \<Rightarrow> uuid \<Rightarrow> db \<Rightarrow>
   deposit_error option \<times> db" where
  "deposit_handleSubmit balances amount selectedUser user slip accepted now fresh d =
     (case parseInt amount of
        None \<Rightarrow> (Some Enter_a_valid_amount, d)
      | Some depositAmount \<Rightarrow>
          if depositAmount \<le> 0 then (Some Enter_a_valid_amount, d)
          else if depositAmount > shopBalance balances
            then (Some (Amount_exceeds_available_balance (shopBalance balances)), d)
          else if selectedUser = [] then (Some Select_a_user, d)
          else (case user of
                  None \<Rightarrow> (Some Must_be_logged_in, d)
                | Some u \<Rightarrow>
                    if slip = Upload_failed then (Some Deposit_upload_failed, d)
                    else if \<not> accepted then (Some Failed_to_create_deposit, d)
                    else (None,
                          insert_deposit now
                            \<lparr>d_id = fresh, d_deposited_by = selectedUser, d_received_by = u,
                             d_amount = depositAmount, d_description = Some ''Manual deposit'',
                             d_slip_image = image_url slip, d_timestamp = now\<rparr> d)))"

subsection \<open>Expenses: \<^verbatim>\<open>handleSubmit\<close> of \<^verbatim>\<open>Expenses.tsx\<close>\<close>

datatype expense_outcome =
    Expense_ignored
  | Amounts_must_equal_total
  | Expense_upload_failed
  | Expense_insert_failed
  | Expense_submitted

text \<open>The row goes to the table \<^verbatim>\<open>expenses\<close> by a plain insert.\<close>

definition expense_handleSubmit ::
  "string \<Rightarrow> field \<Rightarrow> field \<Rightarrow> field \<Rightarrow> profile option \<Rightarrow> upload \<Rightarrow> bool \<Rightarrow> timestamp \<Rightarrow> uuid \<Rightarrow> db \<Rightarrow>
   expense_outcome \<times> db" where
  "expense_handleSubmit purpose amount cashAmount onlineAmount userProfile receipt accepted now fresh d =
     (case userProfile of
        None \<Rightarrow> (Expense_ignored, d)
      | Some up \<Rightarrow>
          if purpose = [] \<or> amount = Blank then (Expense_ignored, d)
          else
            (let parsedAmount = parseInt amount;
                 parsedCashAmount = parseInt (or_zero cashAmount);
                 parsedOnlineAmount = parseInt (or_zero onlineAmount)
             in case (parsedAmount, parsedCashAmount, parsedOnlineAmount) of
                  (Some a, Some c, Some on) \<Rightarrow>
                    if c + on \<noteq> a then (Amounts_must_equal_total, d)
                    else if receipt = Upload_failed then (Expense_upload_failed, d)
                    else if \<not> accepted then (Expense_insert_failed, d)
                    else (Expense_submitted,
                          insert_expense
                            \<lparr>e_id = fresh, e_created_by = p_id up, e_purpose = purpose,
                             e_amount = a, e_cash_amount = c, e_online_amount = on,
                             e_receipt_image = image_url receipt, e_timestamp = now\<rparr> d)
                | _ \<Rightarrow> (Amounts_must_equal_total, d)))"

subsection \<open>Sales: \<^verbatim>\<open>updateQuantity\<close>, \<^verbatim>\<open>completeSale\<close> and \<^verbatim>\<open>handleCompleteSale\<close>\<close>

text \<open>\<^verbatim>\<open>localQuantities\<close> is a \<^verbatim>\<open>Record<number, number>\<close> keyed by price.\<close>

type_synonym quantities = "int \<rightharpoonup> int"

text \<open>\<^verbatim>\<open>localQuantities[price] || 0\<close>.\<close>

definition quantity_or_0 :: "quantities \<Rightarrow> int \<Rightarrow> int" where
  "quantity_or_0 lq price = (case lq price of None \<Rightarrow> 0 | Some q \<Rightarrow> q)"

definition updateQuantity :: "category list \<Rightarrow> int option \<Rightarrow> int \<Rightarrow> int \<Rightarrow> quantities \<Rightarrow> quantities" where
  "updateQuantity categories updatingPrice price quantity lq =
     (if updatingPrice = Some price then lq
      else
        (let maxStock = (case find (\<lambda>c. cat_price c = price) categories of
                           None \<Rightarrow> 0 | Some c \<Rightarrow> cat_stock c);
             newQuantity = max 0 (min quantity maxStock)
         in lq(price \<mapsto> newQuantity)))"

text \<open>The \<^verbatim>\<open>total\<close> the page keeps: the effect recomputes it from the categories and the
  quantities whenever either changes.\<close>

definition cart_total :: "category list \<Rightarrow> quantities \<Rightarrow> int" where
  "cart_total categories lq =
     fold (\<lambda>category sum. sum + quantity_or_0 lq (cat_price category) * cat_price category)
       categories 0"

definition saleItems :: "category list \<Rightarrow> quantities \<Rightarrow> sale_item list" where
  "saleItems categories lq =
     map (\<lambda>category.
            \<lparr>si_category = (case cat_id category of None \<Rightarrow> [] | Some i \<Rightarrow> i),
             si_price = cat_price category, si_stock = cat_stock category,
             si_quantity = quantity_or_0 lq (cat_price category)\<rparr>)
       (filter (\<lambda>category. case lq (cat_price category) of None \<Rightarrow> False | Some q \<Rightarrow> q > 0)
          categories)"

definition items_total :: "sale_item list \<Rightarrow> int" where
  "items_total its = sum_list (map (\<lambda>it. si_price it * si_quantity it) its)"

text \<open>
  The remote procedure \<^verbatim>\<open>handle_sale\<close> is an argument \<open>rpc\<close> of the functions below: it
  takes \<^verbatim>\<open>p_user_id, p_items, p_total, p_payment, p_timestamp\<close> and the ledger, and gives
  an error or the ledger after the sale.
\<close>

type_synonym 'e sale_rpc = "uuid \<Rightarrow> sale_item list \<Rightarrow> int \<Rightarrow> payment \<Rightarrow> timestamp \<Rightarrow> db \<Rightarrow> 'e + db"

datatype 'e sale_failure =
    Payment_must_match_total
  | No_authenticated_user
  | Sale_rpc_failed 'e
  | Recall_failed js_error

definition completeSale ::
  "'e sale_rpc \<Rightarrow> uuid option \<Rightarrow> fetch_responses \<Rightarrow> timestamp \<Rightarrow> sale \<Rightarrow> store \<times> local_storage \<Rightarrow> db \<Rightarrow>
   ('e sale_failure + unit) \<times> (store \<times> local_storage) \<times> db" where
  "completeSale rpc user rs now sale cl d =
     (case user of
        None \<Rightarrow> (Inl No_authenticated_user, cl, d)
      | Some u \<Rightarrow>
          (case rpc u (sale_items sale) (sale_total sale) (sale_payment sale) now d of
             Inl saleError \<Rightarrow> (Inl (Sale_rpc_failed saleError), cl, d)
           | Inr d' \<Rightarrow>
               (case fetchAllData (Some u) rs cl of
                  (Inl error, cl') \<Rightarrow> (Inl (Recall_failed error), cl', d')
                | (Inr _, cl') \<Rightarrow> (Inr (), cl', d'))))"

record sale_form =
  localQuantities :: quantities
  cashAmount :: field
  onlineAmount :: field
  slipImage :: upload
  isProcessingSale :: bool

datatype 'e sale_outcome =
    Sale_ignored
  | Sale_alert "'e sale_failure"
  | Sale_upload_failed
  | Sale_completed

text \<open>
  \<^verbatim>\<open>handleCompleteSale\<close>. \<open>categories\<close> is the store's list as the page holds it. A thrown
  error is caught at the end of the handler, which alerts and puts \<open>categories\<close> back into
  the store.
\<close>

definition handleCompleteSale ::
  "'e sale_rpc \<Rightarrow> sale_form \<Rightarrow> uuid option \<Rightarrow> fetch_responses \<Rightarrow> timestamp \<Rightarrow> store \<times> local_storage \<Rightarrow> db \<Rightarrow>
   'e sale_outcome \<times> (store \<times> local_storage) \<times> db" where
  "handleCompleteSale rpc form user rs now cl d =
     (if isProcessingSale form then (Sale_ignored, cl, d)
      else
        (let categories = st_categories (fst cl);
             total = cart_total categories (localQuantities form);
             totalPayment = js_add (number_or_0 (cashAmount form)) (number_or_0 (onlineAmount form))
         in case (number_or_0 (cashAmount form), number_or_0 (onlineAmount form)) of
              (Some cash, Some online) \<Rightarrow>
                if js_neq totalPayment (Some total)
                then (Sale_alert Payment_must_match_total,
                      (optimisticUpdateCategories categories (fst cl), snd cl), d)
                else if slipImage form = Upload_failed then (Sale_upload_failed, cl, d)
                else
                  (let items = saleItems categories (localQuantities form);
                       updatedCategories =
                         map (\<lambda>category.
                                category\<lparr>cat_stock := cat_stock category
                                   - quantity_or_0 (localQuantities form) (cat_price category)\<rparr>)
                           categories;
                       cl1 = (optimisticUpdateCategories updatedCategories (fst cl), snd cl);
                       sale = \<lparr>sale_id = [], sale_user_id = [], sale_created_by = [],
                               sale_timestamp = now, sale_items = items, sale_total = total,
                               sale_payment = \<lparr>pay_cash = cash, pay_online = online,
                                                pay_slip = image_url (slipImage form)\<rparr>,
                               sale_creator = \<lparr>cd_name = [], cd_designation = []\<rparr>\<rparr>
                   in case completeSale rpc user rs now sale cl1 d of
                        (Inl error, cl2, d2) \<Rightarrow>
                          (Sale_alert error,
                           (optimisticUpdateCategories categories (fst cl2), snd cl2), d2)
                      | (Inr _, cl2, d2) \<Rightarrow> (Sale_completed, cl2, d2))
            | _ \<Rightarrow> (Sale_alert Payment_must_match_total,
                    (optimisticUpdateCategories categories (fst cl), snd cl), d)))"

section \<open>The sale procedure\<close>

text \<open>
  \<^verbatim>\<open>completeSale\<close> calls the stored procedure \<^verbatim>\<open>handle_sale\<close> by name; the migration
  does not define it, and no other file does. This section models it from the spec's
  \<^verbatim>\<open>RecordSale\<close>.
\<close>

text \<open>Modelled from the spec: the typed errors a sale can raise, \<^verbatim>\<open>InsufficientStock\<close>
  (naming the offending category), \<^verbatim>\<open>CategoryNotFound\<close> and \<^verbatim>\<open>PaymentMismatch\<close>; the
  procedure \<^verbatim>\<open>handle_sale\<close> that raises them is missing.\<close>

datatype sale_error = Insufficient_stock uuid | Category_not_found uuid | Payment_mismatch

text \<open>Modelled from the spec: ``that category's current stock'', read by the missing
  procedure \<^verbatim>\<open>handle_sale\<close>.\<close>

definition stock_of :: "db \<Rightarrow> uuid \<Rightarrow> int option" where
  "stock_of d cid = map_option cr_stock (find (\<lambda>c. cr_id c = cid) (db_categories d))"

text \<open>Modelled from the spec: an item fails the stock check of the missing procedure
  \<^verbatim>\<open>handle_sale\<close> when its quantity exceeds its category's current stock.\<close>

definition lacks_stock :: "db \<Rightarrow> sale_item \<Rightarrow> bool" where
  "lacks_stock d it =
     (case stock_of d (si_category it) of None \<Rightarrow> False | Some st \<Rightarrow> si_quantity it > st)"

text \<open>Modelled from the spec: ``for each item, decrement category stock'', a step of the
  missing procedure \<^verbatim>\<open>handle_sale\<close>.\<close>

definition decrement_stock :: "sale_item \<Rightarrow> db \<Rightarrow> db" where
  "decrement_stock it d =
     d\<lparr>db_categories :=
         map (\<lambda>c. if cr_id c = si_category it
                   then c\<lparr>cr_stock := cr_stock c - si_quantity it\<rparr> else c)
           (db_categories d)\<rparr>"

text \<open>
  Modelled from the spec: the effect of the missing procedure \<^verbatim>\<open>handle_sale\<close> on the
  stocks, item by item in the order of the sale. Committing a sale ``decrements each
  referenced category's stock by the sold quantity --- rejected if insufficient stock'', and
  ``stock is at least 0 after every committed sale'': an item whose quantity exceeds what is
  left of its category's stock when its turn comes, after the items before it, aborts the
  operation with \<^verbatim>\<open>InsufficientStock\<close> naming that category.
\<close>

fun sell_items :: "sale_item list \<Rightarrow> db \<Rightarrow> sale_error + db" where
  "sell_items [] d = Inr d"
| "sell_items (it # its) d =
     (if lacks_stock d it then Inl (Insufficient_stock (si_category it))
      else sell_items its (decrement_stock it d))"

text \<open>
  Modelled from the spec: the stored procedure \<^verbatim>\<open>handle_sale\<close> (the spec's
  \<^verbatim>\<open>RecordSale\<close>), which is missing from the sources. The spec gives it two preconditions,
  validated against the current state before any write: every item's quantity is at most
  that category's current stock, and cash plus online equals the sum of price times
  quantity over the items. If any item's stock check fails the operation aborts with
  \<^verbatim>\<open>InsufficientStock\<close> naming the offending category; an item whose category does not
  exist gives \<^verbatim>\<open>CategoryNotFound\<close>; an unbalanced payment gives \<^verbatim>\<open>PaymentMismatch\<close>.
  Otherwise the sale row is inserted (which runs the triggers of the table \<^verbatim>\<open>sales\<close>: the
  balances grow by the payment, the notifications go out) and the items are sold one after
  the other by \<^const>\<open>sell_items\<close>, which aborts when the stock left does not suffice. The
  operation is atomic: a left result is the aborted transaction, in which nothing is
  written, no partial stock decrement either. \<open>fresh\<close> is the id of the new row.
\<close>

definition handle_sale :: "uuid \<Rightarrow> uuid \<Rightarrow> sale_item list \<Rightarrow> int \<Rightarrow> payment \<Rightarrow> timestamp \<Rightarrow> db \<Rightarrow> sale_error + db" where
  "handle_sale fresh p_user_id p_items p_total p_payment p_timestamp d =
     (case find (lacks_stock d) p_items of
        Some it \<Rightarrow> Inl (Insufficient_stock (si_category it))
      | None \<Rightarrow>
     (case find (\<lambda>it. stock_of d (si_category it) = None) p_items of
        Some it \<Rightarrow> Inl (Category_not_found (si_category it))
      | None \<Rightarrow>
          if pay_cash p_payment + pay_online p_payment \<noteq> items_total p_items
          then Inl Payment_mismatch
          else sell_items p_items
                 (insert_sale p_timestamp
                    \<lparr>s_id = fresh, s_user_id = p_user_id, s_created_by = p_user_id,
                     s_timestamp = p_timestamp, s_items = p_items, s_total = p_total,
                     s_payment = p_payment\<rparr> d)))"

section \<open>Predicates and example states used in the statements\<close>

definition stocks_nonneg :: "db \<Rightarrow> bool" where
  "stocks_nonneg d = list_all (\<lambda>c. 0 \<le> cr_stock c) (db_categories d)"

definition quantities_nonneg :: "category list \<Rightarrow> quantities \<Rightarrow> bool" where
  "quantities_nonneg categories lq =
     list_all (\<lambda>c. 0 \<le> quantity_or_0 lq (cat_price c)) categories"

definition call_failed :: "'a response \<Rightarrow> bool" where
  "call_failed r = (case r of Rejected _ \<Rightarrow> True | Response e _ \<Rightarrow> e \<noteq> None)"

text \<open>The notification rows a statement added.\<close>

definition new_notifications :: "db \<Rightarrow> db \<Rightarrow> notification list" where
  "new_notifications d d' = drop (length (db_notifications d)) (db_notifications d')"

definition shop_and_bank :: "db \<Rightarrow> (int \<times> int) list" where
  "shop_and_bank d = map (\<lambda>b. (shop_balance b, bank_balance b)) (db_balances d)"

definition ex_owner :: profile where
  "ex_owner = \<lparr>p_id = ''o1'', p_name = ''Asha'', p_designation = ''Owner'',
               p_is_admin = True, p_is_approved = True\<rparr>"

definition ex_manager :: profile where
  "ex_manager = \<lparr>p_id = ''m1'', p_name = ''Ravi'', p_designation = ''Store Manager'',
                 p_is_admin = False, p_is_approved = True\<rparr>"

definition ex_owner2 :: profile where
  "ex_owner2 = \<lparr>p_id = ''o2'', p_name = ''Mira'', p_designation = ''Owner'',
                p_is_admin = False, p_is_approved = False\<rparr>"

text \<open>The ledger right after the migration, with three users and two price categories.\<close>

definition ex_db :: db where
  "ex_db = \<lparr>db_auth_users = [''o1'', ''m1'', ''o2''],
            db_profiles = [ex_owner, ex_manager, ex_owner2],
            db_categories = [\<lparr>cr_id = ''c149'', cr_price = 149, cr_stock = 5\<rparr>,
                             \<lparr>cr_id = ''c199'', cr_price = 199, cr_stock = 2\<rparr>],
            db_sales = [], db_expenses = [], db_deposits = [],
            db_balances = [\<lparr>b_id = ''b0'', shop_balance = 0, bank_balance = 0, last_updated = 0\<rparr>],
            db_notifications = []\<rparr>"

definition ex_item :: "int \<Rightarrow> sale_item" where
  "ex_item q = \<lparr>si_category = ''c149'', si_price = 149, si_stock = 5, si_quantity = q\<rparr>"

definition ex_expense :: "uuid \<Rightarrow> expense_row" where
  "ex_expense creator = \<lparr>e_id = ''e9'', e_created_by = creator, e_purpose = ''tea'',
                          e_amount = 30, e_cash_amount = 30, e_online_amount = 0,
                          e_receipt_image = None, e_timestamp = 9\<rparr>"

definition ex_cash :: "int \<Rightarrow> payment" where
  "ex_cash n = \<lparr>pay_cash = n, pay_online = 0, pay_slip = None\<rparr>"

text \<open>A cash sale of 149 is recorded and two deposit pages read the balances (149, 0).
  The owner's page submits a deposit of 100; the manager's page, still holding (149, 0),
  then submits a deposit of 80.\<close>

definition ex_after_sale :: db where
  "ex_after_sale =
     insert_sale 1 \<lparr>s_id = ''s1'', s_user_id = ''m1'', s_created_by = ''m1'', s_timestamp = 1,
                    s_items = [ex_item 1], s_total = 149, s_payment = ex_cash 149\<rparr> ex_db"

definition ex_mirror :: client_balances where
  "ex_mirror = \<lparr>shopBalance = 149, bankBalance = 0\<rparr>"

definition ex_first_deposit :: "deposit_error option \<times> db" where
  "ex_first_deposit =
     deposit_handleSubmit ex_mirror (Num 100) ''m1'' (Some ''o1'') No_image True 2 ''d1''
       ex_after_sale"

definition ex_stale_deposit :: "deposit_error option \<times> db" where
  "ex_stale_deposit =
     deposit_handleSubmit ex_mirror (Num 80) ''o1'' (Some ''m1'') No_image True 3 ''d2''
       (snd ex_first_deposit)"

text \<open>The store of a client, mirroring \<^const>\<open>ex_db\<close>.\<close>

definition ex_categories :: "category list" where
  "ex_categories = [\<lparr>cat_id = Some ''c149'', cat_price = 149, cat_stock = 5, cat_user_id = None\<rparr>,
                    \<lparr>cat_id = Some ''c199'', cat_price = 199, cat_stock = 2, cat_user_id = None\<rparr>]"

definition ex_store :: store where
  "ex_store = \<lparr>st_categories = ex_categories, st_sales = [], st_initialized = True,
               st_userProfile = Some ex_manager,
               st_balances = \<lparr>shopBalance = 0, bankBalance = 0\<rparr>\<rparr>"

definition ex_cache :: local_storage where
  "ex_cache = \<lparr>cached_categories = Some ex_categories,
               cached_balances = Some \<lparr>shopBalance = 0, bankBalance = 0\<rparr>\<rparr>"

definition ex_responses :: fetch_responses where
  "ex_responses = \<lparr>categoriesResponse = Response None (Some (db_categories ex_db)),
                   salesResponse = Response None (Some []),
                   balancesResponse = Response None (Some (0, 0))\<rparr>"

text \<open>The sale page with two items of price 149 in the cart, and a sale as it sends it.\<close>

definition ex_form :: "field \<Rightarrow> field \<Rightarrow> sale_form" where
  "ex_form cash online = \<lparr>localQuantities = [149 \<mapsto> 2], cashAmount = cash, onlineAmount = online,
                          slipImage = No_image, isProcessingSale = False\<rparr>"

definition ex_sale :: "sale_item list \<Rightarrow> int \<Rightarrow> sale" where
  "ex_sale its paid = \<lparr>sale_id = [], sale_user_id = [], sale_created_by = [], sale_timestamp = 4,
                       sale_items = its, sale_total = items_total its, sale_payment = ex_cash paid,
                       sale_creator = \<lparr>cd_name = [], cd_designation = []\<rparr>\<rparr>"

text \<open>A remote procedure that only inserts the sale row.\<close>

definition ex_rpc :: "unit sale_rpc" where
  "ex_rpc u its amount pay now d =
     Inr (insert_sale now \<lparr>s_id = ''s2'', s_user_id = u, s_created_by = u, s_timestamp = now,
                            s_items = its, s_total = amount, s_payment = pay\<rparr> d)"

text \<open>The price of the first category is raised to 250 and the write succeeds; then a
  category of price 200 is added and the insert answers with an error.\<close>

definition ex_repriced :: store where
  "ex_repriced = snd (snd (updatePrice 0 250 (Response None None) ex_store))"

definition ex_failed_add ::
  "((js_error + unit) \<times> request option) \<times> (store \<times> local_storage)" where
  "ex_failed_add =
     addCategory 200 (Some ''m1'') ''new'' (Response (Some ''insert failed'') None) ex_responses
       (ex_repriced, ex_cache)"

section \<open>The ledger operations\<close>

lemma balances_notify_expense [simp]: "db_balances (notify_expense new d) = db_balances d"
  by (simp add: notify_expense_def Let_def)

lemma balances_notify_deposit [simp]: "db_balances (notify_deposit new d) = db_balances d"
  by (simp add: notify_deposit_def Let_def)

lemma balances_notify_sale [simp]: "db_balances (notify_sale new d) = db_balances d"
  by (simp add: notify_sale_def Let_def)

lemma balances_insert_expense [simp]: "db_balances (insert_expense new d) = db_balances d"
  by (simp add: insert_expense_def)

lemma current_balances_update_where:
  "current_balances d = Some b \<Longrightarrow>
   current_balances (update_balances_where (Some (b_id b)) f d) = Some (f b)"
  by (auto simp: current_balances_def update_balances_where_def split: list.splits)

lemma profile_of_expenses_update [simp]: "profile_of (d\<lparr>db_expenses := x\<rparr>) = profile_of d"
  by (simp add: profile_of_def fun_eq_iff)

lemma notify_recipients_expenses_update [simp]:
  "notify_recipients (d\<lparr>db_expenses := x\<rparr>) = notify_recipients d"
  by (simp add: notify_recipients_def fun_eq_iff)

lemma set_notify_recipients:
  assumes "set (map p_id (db_profiles d)) \<subseteq> set (db_auth_users d)"
  shows "set (notify_recipients d creator sel) =
           {u. u \<noteq> creator \<and> (\<exists>p \<in> set (db_profiles d). p_id p = u \<and> sel p)}"
  using assms by (auto simp: notify_recipients_def)

lemma new_notifications_insert_expense:
  "new_notifications d (insert_expense new d) =
     map (\<lambda>u. \<lparr>n_user_id = u, n_title = ''New Expense'', n_type = Expense, n_ref = e_id new,
                n_amount = e_amount new, n_purpose = Some (e_purpose new),
                n_creator_id = e_created_by new,
                n_creator_name = map_option p_name (profile_of d (e_created_by new))\<rparr>)
       (notify_recipients d (e_created_by new)
          (if map_option p_designation (profile_of d (e_created_by new)) = Some ''Store Manager''
           then p_is_approved else (\<lambda>p. p_designation p = ''Owner'')))"
  by (cases "map_option p_designation (profile_of d (e_created_by new)) = Some ''Store Manager''")
     (auto simp: new_notifications_def insert_expense_def notify_expense_def Let_def)

lemmas ledger_example_defs =
  ex_db_def ex_owner_def ex_manager_def ex_owner2_def ex_item_def ex_cash_def
  ex_after_sale_def

lemmas ledger_defs =
  shop_and_bank_def current_balances_def update_balances_where_def profile_of_def
  notify_recipients_def notify_sale_def notify_expense_def notify_deposit_def
  update_balances_for_sale_def update_balances_for_deposit_def
  insert_sale_def insert_expense_def insert_deposit_def
  handle_expense_block_def handle_expense_def Let_def

text \<open>
  What \<^verbatim>\<open>handle_expense\<close> does when it commits: both amounts were within the balances it
  read under the lock, the row it inserted has \<open>amount = cash + online\<close>, and the balances
  row is the locked one less the two amounts.
\<close>

lemma handle_expense_committed:
  assumes "handle_expense now fresh user_id purpose cash_amt online_amt d = (Inr i, d')"
  shows "\<exists>b. current_balances d = Some b \<and> cash_amt \<le> shop_balance b \<and> online_amt \<le> bank_balance b
          \<and> current_balances d' =
              Some (b\<lparr>shop_balance := shop_balance b - cash_amt,
                      bank_balance := bank_balance b - online_amt, last_updated := now\<rparr>)
          \<and> (\<exists>row. db_expenses d' = db_expenses d @ [row] \<and> e_amount row = cash_amt + online_amt
                  \<and> e_cash_amount row = cash_amt \<and> e_online_amount row = online_amt)"
proof -
  have committed: "fst (handle_expense now fresh user_id purpose cash_amt online_amt d) = Inr i"
    by (simp add: assms)
  have "current_balances d \<noteq> None"
  proof
    assume "current_balances d = None"
    then have "fst (handle_expense now fresh user_id purpose cash_amt online_amt d) =
        Inl (Error_handling_expense No_balance_record)"
      by (simp add: handle_expense_def handle_expense_block_def)
    with committed show False by simp
  qed
  then obtain b where b: "current_balances d = Some b"
    by (cases "current_balances d") simp_all
  have ok: "cash_amt \<le> shop_balance b \<and> online_amt \<le> bank_balance b"
  proof (rule ccontr)
    assume "\<not> (cash_amt \<le> shop_balance b \<and> online_amt \<le> bank_balance b)"
    then have "\<exists>e. fst (handle_expense now fresh user_id purpose cash_amt online_amt d) = Inl e"
      using b by (auto simp: handle_expense_def handle_expense_block_def Let_def)
    with committed show False by auto
  qed
  let ?row = "\<lparr>e_id = fresh, e_created_by = user_id, e_purpose = purpose,
               e_amount = cash_amt + online_amt, e_cash_amount = cash_amt,
               e_online_amount = online_amt, e_receipt_image = None, e_timestamp = now\<rparr>"
  let ?f = "\<lambda>r. r\<lparr>shop_balance := shop_balance b - cash_amt,
                    bank_balance := bank_balance b - online_amt, last_updated := now\<rparr>"
  have "handle_expense_block now fresh user_id purpose cash_amt online_amt d =
          Inr (fresh, update_balances_where (Some (b_id b)) ?f (insert_expense ?row d))"
    using b ok by (simp add: handle_expense_block_def Let_def)
  then have run: "snd (handle_expense now fresh user_id purpose cash_amt online_amt d) =
          update_balances_where (Some (b_id b)) ?f (insert_expense ?row d)"
    by (simp add: handle_expense_def)
  have res: "snd (handle_expense now fresh user_id purpose cash_amt online_amt d) = d'"
    by (simp add: assms)
  have d': "d' = update_balances_where (Some (b_id b)) ?f (insert_expense ?row d)"
    using res [symmetric] run by (rule trans)
  have "current_balances (insert_expense ?row d) = Some b"
    using b by (simp add: current_balances_def)
  then have cb: "current_balances d' = Some (?f b)"
    unfolding d' by (rule current_balances_update_where)
  have rows: "db_expenses d' = db_expenses d @ [?row]"
    unfolding d' by (simp add: update_balances_where_def insert_expense_def notify_expense_def Let_def)
  show ?thesis
    using b ok cb rows by simp
qed

text \<open>The expense form inserts the row and leaves the balances table as it was.\<close>

lemma expense_handleSubmit_balances:
  "db_balances (snd (expense_handleSubmit purpose amount cash online userProfile
      receipt accepted now fresh d)) = db_balances d"
  by (simp add: expense_handleSubmit_def Let_def split: option.splits)

text \<open>The deposit form, when it commits, inserts one row of the parsed amount.\<close>

lemma deposit_handleSubmit_committed:
  assumes "deposit_handleSubmit mirror amount selectedUser user slip accepted now fresh d = (None, d')"
  shows "\<exists>n u. amount = Num n \<and> user = Some u \<and> 0 < n \<and> n \<le> shopBalance mirror
          \<and> d' = insert_deposit now
                   \<lparr>d_id = fresh, d_deposited_by = selectedUser, d_received_by = u,
                    d_amount = n, d_description = Some ''Manual deposit'',
                    d_slip_image = image_url slip, d_timestamp = now\<rparr> d"
  using assms
  by (cases amount)
     (auto simp: deposit_handleSubmit_def parseInt_def split: option.splits if_splits)

lemma current_balances_insert_deposit:
  assumes "current_balances d = Some b"
  shows "current_balances (insert_deposit now new d) =
           Some (b\<lparr>shop_balance := shop_balance b - d_amount new,
                   bank_balance := bank_balance b + d_amount new, last_updated := now\<rparr>)"
proof -
  have "current_balances (notify_deposit new (d\<lparr>db_deposits := db_deposits d @ [new]\<rparr>)) = Some b"
    using assms by (simp add: current_balances_def)
  then show ?thesis
    unfolding insert_deposit_def update_balances_for_deposit_def
    by (simp add: current_balances_update_where)
qed

text \<open>
  \<^verbatim>\<open>handle_expense\<close> keeps non-negative balances non-negative, whether it commits or
  raises. The deposit form does so when the balance it holds is the ledger's current one.
\<close>

lemma handle_expense_keeps_nonneg:
  assumes "current_balances d = Some b" and "0 \<le> shop_balance b" and "0 \<le> bank_balance b"
  shows "\<exists>b'. current_balances (snd (handle_expense now fresh user_id purpose cash_amt online_amt d))
             = Some b' \<and> 0 \<le> shop_balance b' \<and> 0 \<le> bank_balance b'"
proof (cases "fst (handle_expense now fresh user_id purpose cash_amt online_amt d)")
  case (Inl e)
  then have "snd (handle_expense now fresh user_id purpose cash_amt online_amt d) = d"
    by (auto simp: handle_expense_def split: sum.splits)
  then show ?thesis
    using assms by simp
next
  case (Inr i)
  then have "handle_expense now fresh user_id purpose cash_amt online_amt d =
      (Inr i, snd (handle_expense now fresh user_id purpose cash_amt online_amt d))"
    by (simp add: prod_eq_iff)
  from handle_expense_committed [OF this] assms(1)
  show ?thesis
    by auto
qed

lemma deposit_handleSubmit_current_mirror_nonneg:
  assumes "current_balances d = Some b" and "shopBalance mirror = shop_balance b"
    and "0 \<le> shop_balance b" and "0 \<le> bank_balance b"
  shows "\<exists>b'. current_balances
              (snd (deposit_handleSubmit mirror amount selectedUser user slip accepted now fresh d))
             = Some b' \<and> 0 \<le> shop_balance b' \<and> 0 \<le> bank_balance b'"
proof (cases "fst (deposit_handleSubmit mirror amount selectedUser user slip accepted now fresh d)")
  case None
  then have "deposit_handleSubmit mirror amount selectedUser user slip accepted now fresh d =
      (None, snd (deposit_handleSubmit mirror amount selectedUser user slip accepted now fresh d))"
    by (simp add: prod_eq_iff)
  from deposit_handleSubmit_committed [OF this]
  obtain n u where n: "0 < n" "n \<le> shopBalance mirror"
    and d': "snd (deposit_handleSubmit mirror amount selectedUser user slip accepted now fresh d) =
       insert_deposit now
         \<lparr>d_id = fresh, d_deposited_by = selectedUser, d_received_by = u, d_amount = n,
          d_description = Some ''Manual deposit'', d_slip_image = image_url slip,
          d_timestamp = now\<rparr> d"
    by blast
  show ?thesis
    using n assms by (simp add: d' current_balances_insert_deposit)
next
  case (Some e)
  then have "snd (deposit_handleSubmit mirror amount selectedUser user slip accepted now fresh d) = d"
    by (cases amount)
       (auto simp: deposit_handleSubmit_def parseInt_def split: option.splits if_splits)
  then show ?thesis
    using assms by simp
qed

text \<open>
  Claim C1 (balances never negative; a deposit above the current shop balance cannot be
  committed). The ledger starts at shop 0, bank 0. A cash sale of 149 is inserted and two
  deposit pages read the balances (149, 0). The first page submits a deposit of 100, which
  leaves 49 in the shop. The second page submits a deposit of 80, which its guard compares
  with the 149 it holds: the deposit is committed and the trigger leaves the shop balance
  at -31.
\<close>

theorem deposit_overdraws_shop_balance:
  "shop_and_bank ex_db = [(0, 0)]
   \<and> shop_and_bank ex_after_sale = [(shopBalance ex_mirror, bankBalance ex_mirror)]
   \<and> fst ex_first_deposit = None
   \<and> shop_and_bank (snd ex_first_deposit) = [(49, 100)]
   \<and> fst ex_stale_deposit = None
   \<and> shop_and_bank (snd ex_stale_deposit) = [(- 31, 180)]"
  by (simp add: ex_first_deposit_def ex_stale_deposit_def ex_mirror_def
      deposit_handleSubmit_def parseInt_def image_url_def ledger_example_defs ledger_defs)

text \<open>
  Claim C3 (a committed expense decrements the shop balance by its cash part and the bank
  balance by its online part). With 149 in the shop, the manager submits the expense form
  with purpose ``tea'', amount 30, cash 30 and no online part. The row is committed with
  amount 30 = 30 + 0 and the balances stay (149, 0).
\<close>

theorem expense_form_leaves_balances:
  "fst (expense_handleSubmit ''tea'' (Num 30) (Num 30) Blank (Some ex_manager) No_image True
          5 ''e2'' ex_after_sale) = Expense_submitted
   \<and> map (\<lambda>r. (e_amount r, e_cash_amount r, e_online_amount r))
        (db_expenses (snd (expense_handleSubmit ''tea'' (Num 30) (Num 30) Blank (Some ex_manager)
          No_image True 5 ''e2'' ex_after_sale))) = [(30, 30, 0)]
   \<and> shop_and_bank ex_after_sale = [(149, 0)]
   \<and> shop_and_bank (snd (expense_handleSubmit ''tea'' (Num 30) (Num 30) Blank (Some ex_manager)
          No_image True 5 ''e2'' ex_after_sale)) = [(149, 0)]"
  by (simp add: expense_handleSubmit_def parseInt_def or_zero_def image_url_def
      ledger_example_defs ledger_defs)

text \<open>
  Claim C4: a call of \<^verbatim>\<open>handle_expense\<close> whose cash amount exceeds the shop balance, or
  whose online amount exceeds the bank balance, raises and leaves the whole database (the
  balances, every stock, the expenses table) exactly as it was.
\<close>

theorem handle_expense_rejected_unchanged:
  assumes "current_balances d = Some b"
    and "cash_amt > shop_balance b \<or> online_amt > bank_balance b"
  shows "handle_expense now fresh user_id purpose cash_amt online_amt d =
           (Inl (Error_handling_expense
                  (if cash_amt > shop_balance b then Cash_exceeds_shop_balance
                   else Online_exceeds_bank_balance)), d)"
  using assms by (auto simp: handle_expense_def handle_expense_block_def Let_def)

theorem handle_expense_rejected_unchanged_witness:
  "current_balances ex_after_sale =
     Some \<lparr>b_id = ''b0'', shop_balance = 149, bank_balance = 0, last_updated = 1\<rparr>
   \<and> handle_expense 2 ''e1'' ''o1'' ''rent'' 100 20 ex_after_sale =
       (Inl (Error_handling_expense Online_exceeds_bank_balance), ex_after_sale)"
proof -
  have h: "current_balances ex_after_sale =
     Some \<lparr>b_id = ''b0'', shop_balance = 149, bank_balance = 0, last_updated = 1\<rparr>"
    by (simp add: ledger_example_defs ledger_defs)
  show ?thesis
    using h handle_expense_rejected_unchanged [OF h, of 100 20 2 "''e1''" "''o1''" "''rent''"]
    by simp
qed

text \<open>
  Claim C5: inserting a deposit of a given amount takes that amount from the shop balance
  and adds it to the bank balance; their sum is unchanged.
\<close>

theorem deposit_conservation:
  assumes "current_balances d = Some b"
  shows "\<exists>b'. current_balances (insert_deposit now new d) = Some b'
           \<and> shop_balance b' = shop_balance b - d_amount new
           \<and> bank_balance b' = bank_balance b + d_amount new
           \<and> shop_balance b' + bank_balance b' = shop_balance b + bank_balance b"
proof -
  have "current_balances (insert_deposit now new d) =
           Some (b\<lparr>shop_balance := shop_balance b - d_amount new,
                   bank_balance := bank_balance b + d_amount new, last_updated := now\<rparr>)"
    using assms by (rule current_balances_insert_deposit)
  then show ?thesis
    by simp
qed

theorem deposit_conservation_witness:
  "current_balances ex_after_sale =
     Some \<lparr>b_id = ''b0'', shop_balance = 149, bank_balance = 0, last_updated = 1\<rparr>
   \<and> (\<exists>b'. current_balances
              (insert_deposit 3 \<lparr>d_id = ''d1'', d_deposited_by = ''m1'', d_received_by = ''o1'',
                 d_amount = 80, d_description = None, d_slip_image = None, d_timestamp = 3\<rparr>
                 ex_after_sale) = Some b'
          \<and> shop_balance b' = 69 \<and> bank_balance b' = 80
          \<and> shop_balance b' + bank_balance b' = 149)"
proof -
  have h: "current_balances ex_after_sale =
     Some \<lparr>b_id = ''b0'', shop_balance = 149, bank_balance = 0, last_updated = 1\<rparr>"
    by (simp add: ledger_example_defs ledger_defs)
  show ?thesis
    using h deposit_conservation [OF h, of 3
        "\<lparr>d_id = ''d1'', d_deposited_by = ''m1'', d_received_by = ''o1'',
          d_amount = 80, d_description = None, d_slip_image = None, d_timestamp = 3\<rparr>"]
    by simp
qed

text \<open>
  Claim C9: the expense notifications go, when the creator's designation is
  \<^verbatim>\<open>Store Manager\<close>, to every user with an approved profile except the creator, and when
  it is \<^verbatim>\<open>Owner\<close>, to the other users whose profile has the designation \<^verbatim>\<open>Owner\<close> and
  to nobody else. The first hypothesis is the foreign key of \<^verbatim>\<open>profiles.id\<close> into
  \<^verbatim>\<open>auth.users\<close>. Every row produced is of type \<^verbatim>\<open>expense\<close> and refers to the new
  expense.
\<close>

theorem expense_notification_fanout:
  assumes fk: "set (map p_id (db_profiles d)) \<subseteq> set (db_auth_users d)"
    and creator: "profile_of d (e_created_by new) = Some c"
  shows "(p_designation c = ''Store Manager'' \<longrightarrow>
            set (map n_user_id (new_notifications d (insert_expense new d))) =
              {u. u \<noteq> e_created_by new
                  \<and> (\<exists>p \<in> set (db_profiles d). p_id p = u \<and> p_is_approved p)})
       \<and> (p_designation c = ''Owner'' \<longrightarrow>
            set (map n_user_id (new_notifications d (insert_expense new d))) =
              {u. u \<noteq> e_created_by new
                  \<and> (\<exists>p \<in> set (db_profiles d). p_id p = u \<and> p_designation p = ''Owner'')})
       \<and> list_all (\<lambda>n. n_type n = Expense \<and> n_ref n = e_id new)
            (new_notifications d (insert_expense new d))"
proof -
  have ids: "map n_user_id (new_notifications d (insert_expense new d)) =
      notify_recipients d (e_created_by new)
        (if p_designation c = ''Store Manager'' then p_is_approved
         else (\<lambda>p. p_designation p = ''Owner''))"
    by (simp add: new_notifications_insert_expense creator comp_def)
  have kind: "list_all (\<lambda>n. n_type n = Expense \<and> n_ref n = e_id new)
            (new_notifications d (insert_expense new d))"
    by (simp add: new_notifications_insert_expense list_all_iff)
  show ?thesis
    using kind by (simp add: ids set_notify_recipients [OF fk])
qed

theorem expense_notification_fanout_witness:
  "set (map p_id (db_profiles ex_db)) \<subseteq> set (db_auth_users ex_db)
   \<and> profile_of ex_db (e_created_by (ex_expense ''m1'')) = Some ex_manager
   \<and> p_designation ex_manager = ''Store Manager''
   \<and> set (map n_user_id (new_notifications ex_db (insert_expense (ex_expense ''m1'') ex_db)))
       = {''o1''}
   \<and> profile_of ex_db (e_created_by (ex_expense ''o1'')) = Some ex_owner
   \<and> p_designation ex_owner = ''Owner''
   \<and> set (map n_user_id (new_notifications ex_db (insert_expense (ex_expense ''o1'') ex_db)))
       = {''o2''}"
proof -
  have fk: "set (map p_id (db_profiles ex_db)) \<subseteq> set (db_auth_users ex_db)"
    by (simp add: ledger_example_defs)
  have m: "profile_of ex_db (e_created_by (ex_expense ''m1'')) = Some ex_manager"
    by (simp add: ledger_example_defs ex_expense_def profile_of_def)
  have o: "profile_of ex_db (e_created_by (ex_expense ''o1'')) = Some ex_owner"
    by (simp add: ledger_example_defs ex_expense_def profile_of_def)
  have "set (map n_user_id (new_notifications ex_db (insert_expense (ex_expense ''m1'') ex_db)))
      = {u. u \<noteq> e_created_by (ex_expense ''m1'')
            \<and> (\<exists>p \<in> set (db_profiles ex_db). p_id p = u \<and> p_is_approved p)}"
    using expense_notification_fanout [OF fk m] by (simp add: ex_manager_def)
  also have "\<dots> = {''o1''}"
    by (auto simp: ledger_example_defs ex_expense_def)
  finally have mgr: "set (map n_user_id
      (new_notifications ex_db (insert_expense (ex_expense ''m1'') ex_db))) = {''o1''}" .
  have "set (map n_user_id (new_notifications ex_db (insert_expense (ex_expense ''o1'') ex_db)))
      = {u. u \<noteq> e_created_by (ex_expense ''o1'')
            \<and> (\<exists>p \<in> set (db_profiles ex_db). p_id p = u \<and> p_designation p = ''Owner'')}"
    using expense_notification_fanout [OF fk o] by (simp add: ex_owner_def)
  also have "\<dots> = {''o2''}"
    by (auto simp: ledger_example_defs ex_expense_def)
  finally have own: "set (map n_user_id
      (new_notifications ex_db (insert_expense (ex_expense ''o1'') ex_db))) = {''o2''}" .
  show ?thesis
    using fk m o mgr own by (simp add: ex_manager_def ex_owner_def)
qed


section \<open>The store actions\<close>

lemma optimisticUpdateCategories_back [simp]:
  "optimisticUpdateCategories (st_categories st) (optimisticUpdateCategories cs st) = st"
  by (simp add: optimisticUpdateCategories_def)

lemma optimisticUpdateCategories_twice [simp]:
  "optimisticUpdateCategories cs (optimisticUpdateCategories cs' st) =
     optimisticUpdateCategories cs st"
  by (simp add: optimisticUpdateCategories_def)

lemma optimisticUpdateCategories_same [simp]:
  "optimisticUpdateCategories (st_categories st) st = st"
  by (simp add: optimisticUpdateCategories_def)

lemma call_failed_cases:
  "call_failed r \<longleftrightarrow> (\<exists>e. r = Rejected e) \<or> (\<exists>e x. r = Response (Some e) x)"
  by (cases r) (auto simp: call_failed_def)

text \<open>
  \<^verbatim>\<open>updateStock\<close>, \<^verbatim>\<open>updatePrice\<close> and \<^verbatim>\<open>deleteCategory\<close> keep the list they read at
  entry and put it back when the remote write fails: the store is then the store before the
  call, and the error is thrown.
\<close>

lemma updateStock_failure_restores:
  assumes "call_failed reply"
  shows "snd (snd (updateStock index stock reply st)) = st"
  using assms
  by (auto simp: updateStock_def Let_def call_failed_cases split: option.splits)

lemma updatePrice_failure_restores:
  assumes "call_failed reply"
  shows "snd (snd (updatePrice index newPrice reply st)) = st"
  using assms
  by (auto simp: updatePrice_def Let_def call_failed_cases split: option.splits)

lemma deleteCategory_failure_restores:
  assumes "call_failed reply"
  shows "snd (snd (deleteCategory index reply st)) = st"
  using assms
  by (auto simp: deleteCategory_def Let_def call_failed_cases split: option.splits)

text \<open>
  Claim C7 (a failed remote call leaves the store exactly as it was before the call). The
  store lists the categories \<open>c149\<close> (price 149) and \<open>c199\<close> (price 199). The price of
  the first is set to 250 and the write succeeds, so the store lists \<open>c149\<close> (250) before
  \<open>c199\<close> (199). A category of price 200 is then added and the insert answers with an
  error: \<^verbatim>\<open>addCategory\<close> throws, and the store it leaves lists \<open>c199\<close> before \<open>c149\<close>,
  which is not the list the call started from.
\<close>

theorem addCategory_failed_insert_reorders:
  "map (\<lambda>c. (cat_id c, cat_price c)) (st_categories ex_store)
     = [(Some ''c149'', 149), (Some ''c199'', 199)]
   \<and> fst (updatePrice 0 250 (Response None None) ex_store) = Inr ()
   \<and> map (\<lambda>c. (cat_id c, cat_price c)) (st_categories ex_repriced)
     = [(Some ''c149'', 250), (Some ''c199'', 199)]
   \<and> fst (fst ex_failed_add) = Inl ''insert failed''
   \<and> map (\<lambda>c. (cat_id c, cat_price c)) (st_categories (fst (snd ex_failed_add)))
     = [(Some ''c199'', 199), (Some ''c149'', 250)]
   \<and> fst (snd ex_failed_add) \<noteq> ex_repriced"
proof -
  have before: "st_categories ex_repriced =
      [\<lparr>cat_id = Some ''c149'', cat_price = 250, cat_stock = 5, cat_user_id = None\<rparr>,
       \<lparr>cat_id = Some ''c199'', cat_price = 199, cat_stock = 2, cat_user_id = None\<rparr>]"
    by (simp add: ex_repriced_def ex_store_def ex_categories_def updatePrice_def nth_opt_def
        truthy_id_def optimisticUpdateCategories_def Let_def)
  have after: "st_categories (fst (snd ex_failed_add)) =
      [\<lparr>cat_id = Some ''c199'', cat_price = 199, cat_stock = 2, cat_user_id = None\<rparr>,
       \<lparr>cat_id = Some ''c149'', cat_price = 250, cat_stock = 5, cat_user_id = None\<rparr>]"
    by (simp add: ex_failed_add_def addCategory_def before optimisticUpdateCategories_def Let_def)
  have thrown: "fst (fst ex_failed_add) = Inl ''insert failed''"
    by (simp add: ex_failed_add_def addCategory_def Let_def)
  have ok: "fst (updatePrice 0 250 (Response None None) ex_store) = Inr ()"
    by (simp add: ex_store_def ex_categories_def updatePrice_def nth_opt_def truthy_id_def Let_def)
  have differ: "fst (snd ex_failed_add) \<noteq> ex_repriced"
  proof
    assume "fst (snd ex_failed_add) = ex_repriced"
    then have "st_categories (fst (snd ex_failed_add)) = st_categories ex_repriced"
      by simp
    then show False
      by (simp add: before after)
  qed
  show ?thesis
    using ok thrown differ by (simp add: before after) (simp add: ex_store_def ex_categories_def)
qed

text \<open>
  Claim C8: when one of the three fetches of \<^verbatim>\<open>fetchAllData\<close> fails (its promise
  rejects or its response carries an error), the call throws an error, and the store and
  the cache are the ones before the call; in particular \<open>initialized\<close> is not touched. When
  all three succeed, the store becomes the old one with categories, sales, balances and
  \<open>initialized\<close> replaced together, and the cache holds the new categories and balances.
\<close>

theorem fetchAllData_failure_unchanged:
  "(call_failed (categoriesResponse rs) \<or> call_failed (salesResponse rs)
      \<or> call_failed (balancesResponse rs) \<longrightarrow>
        (\<exists>e. fetchAllData (Some u) rs cl = (Inl e, cl))
        \<and> st_initialized (fst (snd (fetchAllData (Some u) rs cl))) = st_initialized (fst cl))
   \<and> (categoriesResponse rs = Response None cats \<and> salesResponse rs = Response None sls
        \<and> balancesResponse rs = Response None bal \<longrightarrow>
        fetchAllData (Some u) rs cl =
          (Inr (),
           (fst cl)\<lparr>st_categories := (case cats of None \<Rightarrow> [] | Some rows \<Rightarrow> map category_of_row rows),
                    st_sales := (case sls of None \<Rightarrow> [] | Some rows \<Rightarrow> map sale_of_row rows),
                    st_balances := (case bal of None \<Rightarrow> \<lparr>shopBalance = 0, bankBalance = 0\<rparr>
                                    | Some (shop, bank) \<Rightarrow> \<lparr>shopBalance = shop, bankBalance = bank\<rparr>),
                    st_initialized := True\<rparr>,
           \<lparr>cached_categories =
              Some (case cats of None \<Rightarrow> [] | Some rows \<Rightarrow> map category_of_row rows),
            cached_balances =
              Some (case bal of None \<Rightarrow> \<lparr>shopBalance = 0, bankBalance = 0\<rparr>
                    | Some (shop, bank) \<Rightarrow> \<lparr>shopBalance = shop, bankBalance = bank\<rparr>)\<rparr>))"
proof -
  have failing: "\<exists>e. fetchAllData (Some u) rs cl = (Inl e, cl)"
    if "call_failed (categoriesResponse rs) \<or> call_failed (salesResponse rs)
        \<or> call_failed (balancesResponse rs)"
    using that
    by (cases "categoriesResponse rs"; cases "salesResponse rs"; cases "balancesResponse rs")
       (auto simp: fetchAllData_def promise_all3_def call_failed_def split: option.splits)
  have succeeding: "fetchAllData (Some u) (rs :: fetch_responses) cl =
          (Inr (),
           (fst cl)\<lparr>st_categories := (case cats of None \<Rightarrow> [] | Some rows \<Rightarrow> map category_of_row rows),
                    st_sales := (case sls of None \<Rightarrow> [] | Some rows \<Rightarrow> map sale_of_row rows),
                    st_balances := (case bal of None \<Rightarrow> \<lparr>shopBalance = 0, bankBalance = 0\<rparr>
                                    | Some (shop, bank) \<Rightarrow> \<lparr>shopBalance = shop, bankBalance = bank\<rparr>),
                    st_initialized := True\<rparr>,
           \<lparr>cached_categories =
              Some (case cats of None \<Rightarrow> [] | Some rows \<Rightarrow> map category_of_row rows),
            cached_balances =
              Some (case bal of None \<Rightarrow> \<lparr>shopBalance = 0, bankBalance = 0\<rparr>
                    | Some (shop, bank) \<Rightarrow> \<lparr>shopBalance = shop, bankBalance = bank\<rparr>)\<rparr>)"
    if "categoriesResponse rs = Response None cats" "salesResponse rs = Response None sls"
       "balancesResponse rs = Response None bal"
    using that by (simp add: fetchAllData_def promise_all3_def Let_def)
  show ?thesis
    using failing succeeding by auto
qed

theorem fetchAllData_failure_unchanged_witness:
  "call_failed (salesResponse (ex_responses\<lparr>salesResponse := Rejected ''offline''\<rparr>))
   \<and> fetchAllData (Some ''m1'') (ex_responses\<lparr>salesResponse := Rejected ''offline''\<rparr>)
        (ex_store\<lparr>st_initialized := False\<rparr>, ex_cache)
       = (Inl ''offline'', (ex_store\<lparr>st_initialized := False\<rparr>, ex_cache))
   \<and> categoriesResponse ex_responses = Response None (Some (db_categories ex_db))
   \<and> salesResponse ex_responses = Response None (Some [])
   \<and> balancesResponse ex_responses = Response None (Some (0, 0))
   \<and> fetchAllData (Some ''m1'') ex_responses (ex_store\<lparr>st_initialized := False\<rparr>, ex_cache)
       = (Inr (), (ex_store, ex_cache))"
proof -
  let ?bad = "ex_responses\<lparr>salesResponse := Rejected ''offline''\<rparr>"
  let ?cl = "(ex_store\<lparr>st_initialized := False\<rparr>, ex_cache)"
  have f: "call_failed (salesResponse ?bad)"
    by (simp add: call_failed_def)
  then have "\<exists>e. fetchAllData (Some ''m1'') ?bad ?cl = (Inl e, ?cl)"
    using fetchAllData_failure_unchanged [where rs = ?bad and u = "''m1''" and cl = ?cl] by simp
  moreover have "fst (fetchAllData (Some ''m1'') ?bad ?cl) = Inl ''offline''"
    by (simp add: fetchAllData_def promise_all3_def ex_responses_def)
  ultimately have bad: "fetchAllData (Some ''m1'') ?bad ?cl = (Inl ''offline'', ?cl)"
    by auto
  have r: "categoriesResponse ex_responses = Response None (Some (db_categories ex_db))"
    "salesResponse ex_responses = Response None (Some [])"
    "balancesResponse ex_responses = Response None (Some (0, 0))"
    by (simp_all add: ex_responses_def)
  have good: "fetchAllData (Some ''m1'') ex_responses ?cl = (Inr (), (ex_store, ex_cache))"
    using fetchAllData_failure_unchanged
      [where rs = ex_responses and cats = "Some (db_categories ex_db)" and sls = "Some []"
         and bal = "Some (0, 0)" and u = "''m1''" and cl = ?cl] r
    by (simp add: ex_store_def ex_cache_def ex_categories_def ex_db_def category_of_row_def)
  show ?thesis
    by (intro conjI f bad r good)
qed

text \<open>
  Claim C10: when \<^verbatim>\<open>updateStock(index, stock)\<close> finds a category with an id at the
  index, the remote update it sends carries \<open>max 0 stock\<close> for that id whatever the reply,
  and the store it applies optimistically holds \<open>max 0 stock\<close> at the index, which is never
  negative; when it finds none, it sends nothing and the store is unchanged.
\<close>

theorem updateStock_clamps:
  "(nth_opt (st_categories st) index = Some c \<and> truthy_id (Some c) = Some cid \<longrightarrow>
      fst (snd (updateStock index stock reply st)) = Some (Update_stock cid (max 0 stock))
      \<and> snd (snd (updateStock index stock (Response None x) st)) =
            st\<lparr>st_categories := (st_categories st)[nat index := c\<lparr>cat_stock := max 0 stock\<rparr>]\<rparr>
      \<and> cat_stock (st_categories (snd (snd (updateStock index stock (Response None x) st)))
            ! nat index) = max 0 stock
      \<and> 0 \<le> cat_stock (st_categories (snd (snd (updateStock index stock (Response None x) st)))
            ! nat index))
   \<and> (truthy_id (nth_opt (st_categories st) index) = None \<longrightarrow>
        updateStock index stock reply st = (Inr (), None, st))"
proof -
  have sent: "fst (snd (updateStock index stock reply st)) = Some (Update_stock cid (max 0 stock))"
    if "nth_opt (st_categories st) index = Some c" "truthy_id (Some c) = Some cid"
    using that by (cases reply) (auto simp: updateStock_def Let_def split: option.splits)
  have applied: "snd (snd (updateStock index stock (Response None x) st)) =
            st\<lparr>st_categories := (st_categories st)[nat index := c\<lparr>cat_stock := max 0 stock\<rparr>]\<rparr>"
    if "nth_opt (st_categories st) index = Some c" "truthy_id (Some c) = Some cid"
    using that by (simp add: updateStock_def optimisticUpdateCategories_def Let_def)
  have inside: "nat index < length (st_categories st)"
    if "nth_opt (st_categories st) index = Some c"
    using that by (simp add: nth_opt_def split: if_splits)
  have untouched: "updateStock index stock reply st = (Inr (), None, st)"
    if "truthy_id (nth_opt (st_categories st) index) = None"
    using that by (cases "nth_opt (st_categories st) index") (simp_all add: updateStock_def Let_def)
  have found: "nth_opt (st_categories st) index = Some c \<and> truthy_id (Some c) = Some cid \<longrightarrow>
      fst (snd (updateStock index stock reply st)) = Some (Update_stock cid (max 0 stock))
      \<and> snd (snd (updateStock index stock (Response None x) st)) =
            st\<lparr>st_categories := (st_categories st)[nat index := c\<lparr>cat_stock := max 0 stock\<rparr>]\<rparr>
      \<and> cat_stock (st_categories (snd (snd (updateStock index stock (Response None x) st)))
            ! nat index) = max 0 stock
      \<and> 0 \<le> cat_stock (st_categories (snd (snd (updateStock index stock (Response None x) st)))
            ! nat index)"
    using sent applied inside by simp
  have missing: "truthy_id (nth_opt (st_categories st) index) = None \<longrightarrow>
        updateStock index stock reply st = (Inr (), None, st)"
    using untouched by (rule impI)
  show ?thesis
    using found missing by (rule conjI)
qed

theorem updateStock_clamps_witness:
  "nth_opt (st_categories ex_store) 0 = Some (hd ex_categories)
   \<and> truthy_id (Some (hd ex_categories)) = Some ''c149''
   \<and> fst (snd (updateStock 0 (- 3) (Rejected ''offline'') ex_store)) = Some (Update_stock ''c149'' 0)
   \<and> map cat_stock (st_categories (snd (snd (updateStock 0 (- 3) (Response None None) ex_store))))
       = [0, 2]
   \<and> truthy_id (nth_opt (st_categories ex_store) 7) = None
   \<and> updateStock 7 4 (Response None None) ex_store = (Inr (), None, ex_store)"
proof -
  have a: "nth_opt (st_categories ex_store) 0 = Some (hd ex_categories)"
    by (simp add: ex_store_def ex_categories_def nth_opt_def)
  have b: "truthy_id (Some (hd ex_categories)) = Some ''c149''"
    by (simp add: ex_categories_def truthy_id_def)
  have c: "truthy_id (nth_opt (st_categories ex_store) 7) = None"
    by (simp add: ex_store_def ex_categories_def nth_opt_def truthy_id_def)
  have sent: "fst (snd (updateStock 0 (- 3) (Rejected ''offline'') ex_store))
      = Some (Update_stock ''c149'' 0)"
    using a b updateStock_clamps [where st = ex_store and index = 0 and c = "hd ex_categories"
        and cid = "''c149''" and stock = "- 3" and reply = "Rejected ''offline''"]
    by simp
  have "snd (snd (updateStock 0 (- 3) (Response None None) ex_store)) =
      ex_store\<lparr>st_categories := (st_categories ex_store)[nat 0 := (hd ex_categories)\<lparr>cat_stock := max 0 (- 3)\<rparr>]\<rparr>"
    using a b updateStock_clamps [where st = ex_store and index = 0 and c = "hd ex_categories"
        and cid = "''c149''" and stock = "- 3" and x = None]
    by simp
  then have applied: "map cat_stock
      (st_categories (snd (snd (updateStock 0 (- 3) (Response None None) ex_store)))) = [0, 2]"
    by (simp add: ex_store_def ex_categories_def)
  have untouched: "updateStock 7 4 (Response None None) ex_store = (Inr (), None, ex_store)"
    using c updateStock_clamps [where st = ex_store and index = 7 and stock = 4
        and reply = "Response None None"] by simp
  show ?thesis
    by (intro conjI a b c sent applied untouched)
qed


section \<open>Sales\<close>

lemma fold_add_sum_list:
  "fold (\<lambda>x (s::int). s + f x) xs a = a + sum_list (map f xs)"
  by (induction xs arbitrary: a) simp_all

lemma cart_total_sum_list:
  "cart_total categories lq =
     sum_list (map (\<lambda>c. quantity_or_0 lq (cat_price c) * cat_price c) categories)"
  by (simp add: cart_total_def fold_add_sum_list)

text \<open>The quantities that \<^verbatim>\<open>updateQuantity\<close> stores are never negative.\<close>

lemma updateQuantity_nonneg:
  assumes "quantities_nonneg categories lq"
  shows "quantities_nonneg categories (updateQuantity categories updatingPrice price quantity lq)"
  using assms
  by (auto simp: quantities_nonneg_def updateQuantity_def quantity_or_0_def Let_def list_all_iff)

text \<open>With no negative quantity in the cart, the total the page keeps is the sum of price
  times quantity over the items it sends.\<close>

lemma cart_total_saleItems:
  assumes "quantities_nonneg categories lq"
  shows "cart_total categories lq = items_total (saleItems categories lq)"
  using assms
proof (induction categories)
  case Nil
  then show ?case
    by (simp add: cart_total_sum_list items_total_def saleItems_def)
next
  case (Cons c cs)
  then have rest: "cart_total cs lq = items_total (saleItems cs lq)"
    and q: "0 \<le> quantity_or_0 lq (cat_price c)"
    by (simp_all add: quantities_nonneg_def)
  have split: "cart_total (c # cs) lq = quantity_or_0 lq (cat_price c) * cat_price c + cart_total cs lq"
    by (simp add: cart_total_sum_list)
  show ?case
  proof (cases "lq (cat_price c)")
    case None
    then show ?thesis
      using rest split by (simp add: items_total_def saleItems_def quantity_or_0_def)
  next
    case (Some n)
    with q have "0 \<le> n"
      by (simp add: quantity_or_0_def)
    then show ?thesis
      using rest split Some
      by (cases "n = 0") (simp_all add: items_total_def saleItems_def quantity_or_0_def mult.commute)
  qed
qed

text \<open>\<^verbatim>\<open>completeSale\<close> throws what the session, the remote procedure or the refetch gave it.\<close>

lemma completeSale_not_payment [simp]:
  "completeSale rpc user rs now sale cl d \<noteq> (Inl Payment_must_match_total, rest)"
  by (auto simp: completeSale_def split: option.splits sum.splits prod.splits)

text \<open>Whatever \<^verbatim>\<open>handleCompleteSale\<close> alerts, the store then lists the categories the
  page held when it was called: the optimistic decrement is taken back.\<close>

lemma handleCompleteSale_alert_reverts:
  assumes "fst (handleCompleteSale rpc form user rs now cl d) = Sale_alert e"
  shows "st_categories (fst (fst (snd (handleCompleteSale rpc form user rs now cl d))))
           = st_categories (fst cl)"
  using assms
  by (auto simp: handleCompleteSale_def optimisticUpdateCategories_def Let_def
      split: if_splits option.splits prod.splits sum.splits)

text \<open>
  Claim C6: \<^verbatim>\<open>handleCompleteSale\<close>, called while no sale is being processed and with no
  negative quantity in the cart, rejects with ``Payment amount must match the total amount''
  exactly when cash plus online differs from the sum of price times quantity over the items
  of the sale (a \<^verbatim>\<open>NaN\<close> amount differs from everything). The rejected call sends nothing:
  the ledger and the store are the ones before the call. A call whose payment balances does
  not end in this rejection.
\<close>

theorem handleCompleteSale_payment_check:
  assumes "\<not> isProcessingSale form"
    and "quantities_nonneg (st_categories (fst cl)) (localQuantities form)"
  shows "(js_neq (js_add (number_or_0 (cashAmount form)) (number_or_0 (onlineAmount form)))
            (Some (items_total (saleItems (st_categories (fst cl)) (localQuantities form)))) \<longrightarrow>
          handleCompleteSale rpc form user rs now cl d = (Sale_alert Payment_must_match_total, cl, d))
       \<and> (\<not> js_neq (js_add (number_or_0 (cashAmount form)) (number_or_0 (onlineAmount form)))
            (Some (items_total (saleItems (st_categories (fst cl)) (localQuantities form)))) \<longrightarrow>
          fst (handleCompleteSale rpc form user rs now cl d) \<noteq> Sale_alert Payment_must_match_total)"
proof -
  have total: "cart_total (st_categories (fst cl)) (localQuantities form) =
      items_total (saleItems (st_categories (fst cl)) (localQuantities form))"
    using assms(2) by (rule cart_total_saleItems)
  have same: "(optimisticUpdateCategories (st_categories (fst cl)) (fst cl), snd cl) = cl"
    by simp
  show ?thesis
  proof (cases "number_or_0 (cashAmount form)")
    case None
    then show ?thesis
      using assms(1) same by (simp add: handleCompleteSale_def Let_def js_neq_def js_add_def)
  next
    case cash: (Some c)
    show ?thesis
    proof (cases "number_or_0 (onlineAmount form)")
      case None
      then show ?thesis
        using assms(1) same cash
        by (simp add: handleCompleteSale_def Let_def js_neq_def js_add_def)
    next
      case online: (Some on)
      show ?thesis
      proof (cases "c + on = cart_total (st_categories (fst cl)) (localQuantities form)")
        case False
        then show ?thesis
          using assms(1) same cash online
          by (simp add: handleCompleteSale_def Let_def js_neq_def js_add_def total [symmetric])
      next
        case True
        then have "fst (handleCompleteSale rpc form user rs now cl d)
            \<noteq> Sale_alert Payment_must_match_total"
          using assms(1) cash online
          by (auto simp: handleCompleteSale_def Let_def js_neq_def js_add_def
              split: prod.splits sum.splits)
        then show ?thesis
          using True cash online by (simp add: js_neq_def js_add_def total [symmetric])
      qed
    qed
  qed
qed

theorem handleCompleteSale_payment_check_witness:
  "\<not> isProcessingSale (ex_form (Num 200) (Num 50))
   \<and> quantities_nonneg (st_categories ex_store) (localQuantities (ex_form (Num 200) (Num 50)))
   \<and> items_total (saleItems (st_categories ex_store)
        (localQuantities (ex_form (Num 200) (Num 50)))) = 298
   \<and> handleCompleteSale ex_rpc (ex_form (Num 200) (Num 50)) (Some ''m1'') ex_responses 4
        (ex_store, ex_cache) ex_db = (Sale_alert Payment_must_match_total, (ex_store, ex_cache), ex_db)
   \<and> fst (handleCompleteSale ex_rpc (ex_form (Num 200) (Num 98)) (Some ''m1'') ex_responses 4
        (ex_store, ex_cache) ex_db) \<noteq> Sale_alert Payment_must_match_total"
proof -
  have idle: "\<not> isProcessingSale (ex_form x y)" for x y
    by (simp add: ex_form_def)
  have cart: "quantities_nonneg (st_categories ex_store) (localQuantities (ex_form x y))" for x y
    by (simp add: ex_form_def ex_store_def ex_categories_def quantities_nonneg_def quantity_or_0_def)
  have sum: "items_total (saleItems (st_categories ex_store) (localQuantities (ex_form x y))) = 298"
    for x y
    by (simp add: ex_form_def ex_store_def ex_categories_def items_total_def saleItems_def
        quantity_or_0_def)
  have paid: "cashAmount (ex_form x y) = x" "onlineAmount (ex_form x y) = y" for x y
    by (simp_all add: ex_form_def)
  have rejected: "handleCompleteSale ex_rpc (ex_form (Num 200) (Num 50)) (Some ''m1'') ex_responses 4
        (ex_store, ex_cache) ex_db = (Sale_alert Payment_must_match_total, (ex_store, ex_cache), ex_db)"
    using idle [of "Num 200" "Num 50"] cart [of "Num 200" "Num 50"]
      handleCompleteSale_payment_check
        [where form = "ex_form (Num 200) (Num 50)" and cl = "(ex_store, ex_cache)"
           and rpc = ex_rpc and user = "Some ''m1''" and rs = ex_responses and now = 4
           and d = ex_db]
    by (simp add: sum paid js_neq_def js_add_def number_or_0_def)
  have accepted: "fst (handleCompleteSale ex_rpc (ex_form (Num 200) (Num 98)) (Some ''m1'')
        ex_responses 4 (ex_store, ex_cache) ex_db) \<noteq> Sale_alert Payment_must_match_total"
    using idle [of "Num 200" "Num 98"] cart [of "Num 200" "Num 98"]
      handleCompleteSale_payment_check
        [where form = "ex_form (Num 200) (Num 98)" and cl = "(ex_store, ex_cache)"
           and rpc = ex_rpc and user = "Some ''m1''" and rs = ex_responses and now = 4
           and d = ex_db]
    by (simp add: sum paid js_neq_def js_add_def number_or_0_def)
  show ?thesis
    by (intro conjI idle cart sum rejected accepted)
qed

lemma categories_insert_sale [simp]:
  "db_categories (insert_sale now new d) = db_categories d"
  by (simp add: insert_sale_def update_balances_for_sale_def update_balances_where_def
      notify_sale_def Let_def)

lemma find_by_distinct_key:
  assumes "distinct (map f xs)" and "x \<in> set xs"
  shows "find (\<lambda>y. f y = f x) xs = Some x"
  using assms by (induction xs) auto

lemma stock_of_row:
  assumes "distinct (map cr_id (db_categories d))" and "c \<in> set (db_categories d)"
  shows "stock_of d (cr_id c) = Some (cr_stock c)"
  using find_by_distinct_key [OF assms] by (simp add: stock_of_def)

lemma ids_decrement_stock [simp]:
  "map cr_id (db_categories (decrement_stock it d)) = map cr_id (db_categories d)"
  by (simp add: decrement_stock_def comp_def if_distrib cong: if_cong)

text \<open>One item that does not lack stock leaves no stock negative.\<close>

lemma decrement_stock_nonneg:
  assumes "\<not> lacks_stock d it" and "stocks_nonneg d"
    and "distinct (map cr_id (db_categories d))"
  shows "stocks_nonneg (decrement_stock it d)"
proof -
  have "0 \<le> cr_stock c - si_quantity it"
    if "c \<in> set (db_categories d)" "cr_id c = si_category it" for c
  proof -
    have "stock_of d (si_category it) = Some (cr_stock c)"
      using stock_of_row [OF assms(3) that(1)] that(2) by simp
    then show ?thesis
      using assms(1) by (simp add: lacks_stock_def)
  qed
  then show ?thesis
    using assms(2) by (auto simp: stocks_nonneg_def list_all_iff decrement_stock_def)
qed

text \<open>Selling a list of items, when it goes through, leaves no stock negative, however
  often a category is named.\<close>

lemma sell_items_nonneg:
  assumes "sell_items its d = Inr d'" and "stocks_nonneg d"
    and "distinct (map cr_id (db_categories d))"
  shows "stocks_nonneg d'"
  using assms
proof (induction its arbitrary: d)
  case Nil
  then show ?case by simp
next
  case (Cons it its)
  from Cons.prems(1) have enough: "\<not> lacks_stock d it"
    and rest: "sell_items its (decrement_stock it d) = Inr d'"
    by (simp_all split: if_splits)
  have "stocks_nonneg (decrement_stock it d)"
    using enough Cons.prems(2,3) by (rule decrement_stock_nonneg)
  moreover have "distinct (map cr_id (db_categories (decrement_stock it d)))"
    using Cons.prems(3) by simp
  ultimately show ?case
    using Cons.IH [OF rest] by simp
qed

lemma handle_sale_insufficient:
  assumes "it \<in> set its" and "stock_of d (si_category it) = Some st" and "st < si_quantity it"
  shows "\<exists>bad. bad \<in> set its \<and> lacks_stock d bad
           \<and> handle_sale fresh actor its amount pay now d = Inl (Insufficient_stock (si_category bad))"
proof -
  have "lacks_stock d it"
    using assms(2,3) by (simp add: lacks_stock_def)
  with assms(1) have "find (lacks_stock d) its \<noteq> None"
    by (auto simp: find_None_iff)
  then obtain bad where bad: "find (lacks_stock d) its = Some bad"
    by (cases "find (lacks_stock d) its") simp_all
  then have "bad \<in> set its \<and> lacks_stock d bad"
    by (auto simp: find_Some_iff)
  then show ?thesis
    using bad by (auto simp: handle_sale_def)
qed

lemma handle_sale_committed_nonneg:
  assumes run: "handle_sale fresh actor its amount pay now d = Inr d'"
    and before: "stocks_nonneg d"
    and keys: "distinct (map cr_id (db_categories d))"
  shows "stocks_nonneg d'"
proof -
  let ?row = "\<lparr>s_id = fresh, s_user_id = actor, s_created_by = actor, s_timestamp = now,
               s_items = its, s_total = amount, s_payment = pay\<rparr>"
  have sold: "sell_items its (insert_sale now ?row d) = Inr d'"
    using run by (simp add: handle_sale_def split: option.splits if_splits)
  have nonneg: "stocks_nonneg (insert_sale now ?row d)"
    using before by (simp add: stocks_nonneg_def)
  have unique: "distinct (map cr_id (db_categories (insert_sale now ?row d)))"
    using keys by simp
  show ?thesis
    using sold nonneg unique by (rule sell_items_nonneg)
qed

text \<open>
  Claim C2: a call of the sale procedure in which some item's quantity exceeds the current
  stock of its category is rejected with \<^verbatim>\<open>InsufficientStock\<close> naming the category of
  such an item, and \<^verbatim>\<open>completeSale\<close> then throws with the ledger and the store as they
  were (no stock is decremented for any item); a committed sale leaves every stock
  non-negative, given that it was so before and that category ids are unique (the primary
  key of \<^verbatim>\<open>categories\<close>).
\<close>

theorem handle_sale_insufficient_stock:
  "(it \<in> set (sale_items sale) \<and> stock_of d (si_category it) = Some st \<and> st < si_quantity it \<longrightarrow>
      (\<exists>bad. bad \<in> set (sale_items sale) \<and> lacks_stock d bad
         \<and> handle_sale fresh u (sale_items sale) (sale_total sale) (sale_payment sale) now d
             = Inl (Insufficient_stock (si_category bad))
         \<and> completeSale (handle_sale fresh) (Some u) rs now sale cl d
             = (Inl (Sale_rpc_failed (Insufficient_stock (si_category bad))), cl, d)))
   \<and> (handle_sale fresh u (sale_items sale) (sale_total sale) (sale_payment sale) now d = Inr d'
        \<and> stocks_nonneg d \<and> distinct (map cr_id (db_categories d)) \<longrightarrow>
      stocks_nonneg d')"
proof -
  have rejected: "\<exists>bad. bad \<in> set (sale_items sale) \<and> lacks_stock d bad
         \<and> handle_sale fresh u (sale_items sale) (sale_total sale) (sale_payment sale) now d
             = Inl (Insufficient_stock (si_category bad))
         \<and> completeSale (handle_sale fresh) (Some u) rs now sale cl d
             = (Inl (Sale_rpc_failed (Insufficient_stock (si_category bad))), cl, d)"
    if "it \<in> set (sale_items sale)" "stock_of d (si_category it) = Some st" "st < si_quantity it"
  proof -
    from handle_sale_insufficient [OF that]
    obtain bad where bad: "bad \<in> set (sale_items sale)" "lacks_stock d bad"
      "handle_sale fresh u (sale_items sale) (sale_total sale) (sale_payment sale) now d
         = Inl (Insufficient_stock (si_category bad))"
      by blast
    have "completeSale (handle_sale fresh) (Some u) rs now sale cl d
             = (Inl (Sale_rpc_failed (Insufficient_stock (si_category bad))), cl, d)"
      by (simp add: completeSale_def bad(3))
    with bad show ?thesis by blast
  qed
  have committed: "stocks_nonneg d'"
    if "handle_sale fresh u (sale_items sale) (sale_total sale) (sale_payment sale) now d = Inr d'"
      "stocks_nonneg d" "distinct (map cr_id (db_categories d))"
    using that by (rule handle_sale_committed_nonneg)
  show ?thesis
    using rejected committed by blast
qed

theorem handle_sale_insufficient_stock_witness:
  "ex_item 6 \<in> set (sale_items (ex_sale [ex_item 6] 894))
   \<and> stock_of ex_db (si_category (ex_item 6)) = Some 5 \<and> 5 < si_quantity (ex_item 6)
   \<and> completeSale (handle_sale ''s2'') (Some ''m1'') ex_responses 4 (ex_sale [ex_item 6] 894)
        (ex_store, ex_cache) ex_db
       = (Inl (Sale_rpc_failed (Insufficient_stock ''c149'')), (ex_store, ex_cache), ex_db)
   \<and> handle_sale ''s2'' ''m1'' [ex_item 3, ex_item 3] 894 (ex_cash 894) 4 ex_db
       = Inl (Insufficient_stock ''c149'')
   \<and> \<not> isl (handle_sale ''s2'' ''m1'' [ex_item 2, ex_item 3] 745 (ex_cash 745) 4 ex_db)
   \<and> stocks_nonneg ex_db \<and> distinct (map cr_id (db_categories ex_db))
   \<and> stocks_nonneg (projr (handle_sale ''s2'' ''m1'' [ex_item 2, ex_item 3] 745 (ex_cash 745) 4 ex_db))
   \<and> map cr_stock (db_categories
        (projr (handle_sale ''s2'' ''m1'' [ex_item 2, ex_item 3] 745 (ex_cash 745) 4 ex_db)))
       = [0, 2]"
proof -
  have a: "ex_item 6 \<in> set (sale_items (ex_sale [ex_item 6] 894))"
    by (simp add: ex_sale_def)
  have b: "stock_of ex_db (si_category (ex_item 6)) = Some 5"
    by (simp add: stock_of_def ex_db_def ex_item_def)
  have c: "5 < si_quantity (ex_item 6)"
    by (simp add: ex_item_def)
  have "\<exists>bad. bad \<in> set (sale_items (ex_sale [ex_item 6] 894)) \<and> lacks_stock ex_db bad
      \<and> completeSale (handle_sale ''s2'') (Some ''m1'') ex_responses 4 (ex_sale [ex_item 6] 894)
           (ex_store, ex_cache) ex_db
          = (Inl (Sale_rpc_failed (Insufficient_stock (si_category bad))), (ex_store, ex_cache), ex_db)"
    using a b c handle_sale_insufficient_stock
      [where it = "ex_item 6" and sale = "ex_sale [ex_item 6] 894" and d = ex_db and st = 5
         and fresh = "''s2''" and u = "''m1''" and rs = ex_responses and now = 4
         and cl = "(ex_store, ex_cache)"]
    by blast
  then have rejected: "completeSale (handle_sale ''s2'') (Some ''m1'') ex_responses 4
        (ex_sale [ex_item 6] 894) (ex_store, ex_cache) ex_db
       = (Inl (Sale_rpc_failed (Insufficient_stock ''c149'')), (ex_store, ex_cache), ex_db)"
    by (auto simp: ex_sale_def ex_item_def)
  have twice: "handle_sale ''s2'' ''m1'' [ex_item 3, ex_item 3] 894 (ex_cash 894) 4 ex_db
       = Inl (Insufficient_stock ''c149'')"
    by (simp add: handle_sale_def lacks_stock_def stock_of_def decrement_stock_def items_total_def
        ex_db_def ex_item_def ex_cash_def)
  have run: "\<not> isl (handle_sale ''s2'' ''m1'' [ex_item 2, ex_item 3] 745 (ex_cash 745) 4 ex_db)"
    by (simp add: handle_sale_def lacks_stock_def stock_of_def decrement_stock_def items_total_def
        ex_db_def ex_item_def ex_cash_def)
  have left: "map cr_stock (db_categories
        (projr (handle_sale ''s2'' ''m1'' [ex_item 2, ex_item 3] 745 (ex_cash 745) 4 ex_db)))
       = [0, 2]"
    by (simp add: handle_sale_def lacks_stock_def stock_of_def decrement_stock_def items_total_def
        ex_db_def ex_item_def ex_cash_def)
  have e: "stocks_nonneg ex_db"
    by (simp add: stocks_nonneg_def ex_db_def)
  have f: "distinct (map cr_id (db_categories ex_db))"
    by (simp add: ex_db_def)
  have sold: "handle_sale ''s2'' ''m1'' (sale_items (ex_sale [ex_item 2, ex_item 3] 745))
        (sale_total (ex_sale [ex_item 2, ex_item 3] 745))
        (sale_payment (ex_sale [ex_item 2, ex_item 3] 745)) 4 ex_db
      = Inr (projr (handle_sale ''s2'' ''m1'' [ex_item 2, ex_item 3] 745 (ex_cash 745) 4 ex_db))"
    using run by (simp add: ex_sale_def items_total_def ex_item_def)
  have after: "stocks_nonneg
      (projr (handle_sale ''s2'' ''m1'' [ex_item 2, ex_item 3] 745 (ex_cash 745) 4 ex_db))"
    using sold e f handle_sale_insufficient_stock
      [where sale = "ex_sale [ex_item 2, ex_item 3] 745" and d = ex_db and fresh = "''s2''"
         and u = "''m1''" and now = 4
         and d' = "projr (handle_sale ''s2'' ''m1'' [ex_item 2, ex_item 3] 745 (ex_cash 745) 4 ex_db)"]
    by (simp add: ex_sale_def)
  show ?thesis
    by (intro conjI a b c rejected twice run e f after left)
qed

end
